theory Spec2Isabelle
  imports Main
begin

section \<open>Go values used by the tool\<close>

text \<open>
  A Go function of the tool either returns or panics. A panic is a value of the model:
  the index expression \<^verbatim>\<open>parts[len(parts)-1]\<close> panics when the index is out of
  range, and \<^verbatim>\<open>*p\<close> panics when \<^verbatim>\<open>p\<close> is nil.
\<close>

datatype panic = IndexOutOfRange int nat | NilPointerDereference

text \<open>
  An \<^verbatim>\<open>error\<close> value carries its message. \<^verbatim>\<open>fmt.Errorf("prefix: %w", err)\<close>
  wraps \<^verbatim>\<open>err\<close>; its message is the prefix followed by the message of \<^verbatim>\<open>err\<close>.
\<close>

datatype error = ErrorString string | WrapError string error

fun Error :: "error \<Rightarrow> string" where
  "Error (ErrorString m) = m"
| "Error (WrapError pre e) = pre @ Error e"

definition fmt_Errorf :: "string \<Rightarrow> error \<Rightarrow> error" where
  "fmt_Errorf pre err = WrapError pre err"

text \<open>
  \<^verbatim>\<open>strings.Split(s, sep)\<close> for a separator of one byte, the only way the tool calls
  it: the pieces of \<^verbatim>\<open>s\<close> between the occurrences of the separator, in order. A
  Go string is a sequence of bytes, as \<^typ>\<open>string\<close> is.
\<close>

fun strings_Split :: "string \<Rightarrow> char \<Rightarrow> string list" where
  "strings_Split [] sep = [[]]"
| "strings_Split (c # cs) sep =
     (if c = sep then [] # strings_Split cs sep
      else (case strings_Split cs sep of
              [] \<Rightarrow> [[c]]
            | p # ps \<Rightarrow> (c # p) # ps))"

text \<open>\<^verbatim>\<open>strings.Join(elems, sep)\<close>.\<close>

fun strings_Join :: "string list \<Rightarrow> string \<Rightarrow> string" where
  "strings_Join [] sep = []"
| "strings_Join [x] sep = x"
| "strings_Join (x # y # ys) sep = x @ sep @ strings_Join (y # ys) sep"

text \<open>\<^verbatim>\<open>xs[i]\<close> on a slice: a run-time panic when \<^verbatim>\<open>i\<close> is out of range.\<close>

definition index :: "'a list \<Rightarrow> int \<Rightarrow> panic + 'a" where
  "index xs i =
     (if 0 \<le> i \<and> i < int (length xs) then Inr (xs ! nat i)
      else Inl (IndexOutOfRange i (length xs)))"

text \<open>\<^verbatim>\<open>aws.ToString(p)\<close>: the string \<^verbatim>\<open>p\<close> points to, the empty string for nil.\<close>

definition aws_ToString :: "string option \<Rightarrow> string" where
  "aws_ToString p = (case p of None \<Rightarrow> [] | Some v \<Rightarrow> v)"

section \<open>Short-name extraction\<close>

text \<open>
  \<^verbatim>\<open>
  func arnToName(arn string) string {
      parts := strings.Split(arn, "/")
      return parts[len(parts)-1]
  }
  \<close>
  The function is the same in both variants of \<^verbatim>\<open>main.go\<close>.
\<close>

definition arnToName :: "string \<Rightarrow> panic + string" where
  "arnToName arn =
     (let parts = strings_Split arn CHR ''/''
      in index parts (int (length parts) - 1))"

section \<open>The control plane, the child process and the log\<close>

text \<open>
  The tool talks to three things outside itself: the cloud control plane (through the
  AWS SDK), the \<^verbatim>\<open>cdk\<close> child process, and the standard logger. Every request is
  recorded, in order, in the run's list of calls; every line given to package
  \<^verbatim>\<open>log\<close> is recorded in the run's list of logged lines (without the time stamp the
  logger puts in front).
\<close>

datatype LoadOption = WithRegion string | WithSharedConfigProfile string

datatype DesiredStatus = DesiredStatusRunning | DesiredStatusPending | DesiredStatusStopped

datatype stream = os_Stdout | os_Stderr

text \<open>
  \<^verbatim>\<open>exec.Cmd\<close>: \<open>Args\<close> holds the command name followed by the arguments, an
  empty \<open>Dir\<close> runs the child in the current directory of the calling process, and
  \<open>Path\<close> is the command as given (looking it up is part of running it).
\<close>

record Cmd =
  Path :: string
  Args :: "string list"
  Dir :: string
  Stdout :: "stream option"
  Stderr :: "stream option"

definition exec_Command :: "string \<Rightarrow> string list \<Rightarrow> Cmd" where
  "exec_Command name arg =
     \<lparr>Path = name, Args = name # arg, Dir = [], Stdout = None, Stderr = None\<rparr>"

text \<open>The fields of the responses that exist in the SDK and matter here.\<close>

record StackResourceSummary =
  ResourceType :: "string option"
  PhysicalResourceId :: "string option"

record ListStackResourcesOutput =
  StackResourceSummaries :: "StackResourceSummary list"
  NextToken_resources :: "string option"

record ListServicesOutput =
  ServiceArns :: "string list"
  NextToken_services :: "string option"

record ListTasksOutput =
  TaskArns :: "string list"
  NextToken_tasks :: "string option"

text \<open>
  A request, with the fields the tool sets. The three listing requests also show their
  \<^verbatim>\<open>NextToken\<close> field (the last argument), which the tool leaves nil.
  \<^item> \<open>ListStackResourcesInput StackName NextToken\<close>
  \<^item> \<open>ListServicesInput Cluster NextToken\<close>
  \<^item> \<open>UpdateServiceInput Cluster Service DesiredCount\<close>
  \<^item> \<open>ServicesStableWait Cluster Services maxWait\<close> (the SDK's waiter, which polls
    \<^verbatim>\<open>DescribeServices\<close>; \<open>maxWait\<close> in nanoseconds)
  \<^item> \<open>DeleteServiceInput Cluster Service Force\<close>
  \<^item> \<open>ListTasksInput Cluster DesiredStatus NextToken\<close>
  \<^item> \<open>StopTaskInput Cluster Task Reason\<close>
\<close>

datatype call =
    LoadDefaultConfigOpts "LoadOption list"
  | ListStackResourcesInput string "string option"
  | ListServicesInput string "string option"
  | UpdateServiceInput string string int
  | ServicesStableWait string "string list" int
  | DeleteServiceInput string string bool
  | ListTasksInput string DesiredStatus "string option"
  | StopTaskInput string string string
  | CmdRun Cmd

text \<open>
  The world answers each request. An answer may depend on everything requested before
  (the first argument), on the loaded configuration and on the request. The configuration
  type \<open>'cfg\<close> is opaque to the tool. \<^verbatim>\<open>filepath.Join\<close> depends on the platform and
  belongs to the world as well.
\<close>

record 'cfg world =
  config_LoadDefaultConfig :: "call list \<Rightarrow> LoadOption list \<Rightarrow> error + 'cfg"
  cfn_ListStackResources ::
    "call list \<Rightarrow> 'cfg \<Rightarrow> string \<Rightarrow> string option \<Rightarrow> error + ListStackResourcesOutput"
  ecs_ListServices ::
    "call list \<Rightarrow> 'cfg \<Rightarrow> string \<Rightarrow> string option \<Rightarrow> error + ListServicesOutput"
  ecs_UpdateService :: "call list \<Rightarrow> 'cfg \<Rightarrow> string \<Rightarrow> string \<Rightarrow> int \<Rightarrow> error option"
  ecs_ServicesStableWaiter_Wait ::
    "call list \<Rightarrow> 'cfg \<Rightarrow> string \<Rightarrow> string list \<Rightarrow> int \<Rightarrow> error option"
  ecs_DeleteService :: "call list \<Rightarrow> 'cfg \<Rightarrow> string \<Rightarrow> string \<Rightarrow> bool \<Rightarrow> error option"
  ecs_ListTasks ::
    "call list \<Rightarrow> 'cfg \<Rightarrow> string \<Rightarrow> DesiredStatus \<Rightarrow> string option \<Rightarrow> error + ListTasksOutput"
  ecs_StopTask :: "call list \<Rightarrow> 'cfg \<Rightarrow> string \<Rightarrow> string \<Rightarrow> string \<Rightarrow> error option"
  cmd_Run :: "call list \<Rightarrow> Cmd \<Rightarrow> error option"
  filepath_Join :: "string \<Rightarrow> string \<Rightarrow> string"

record state =
  calls :: "call list"
  logged :: "string list"

definition issue :: "call \<Rightarrow> state \<Rightarrow> state" where
  "issue c s = s\<lparr>calls := calls s @ [c]\<rparr>"

definition log_Printf :: "string \<Rightarrow> state \<Rightarrow> state" where
  "log_Printf line s = s\<lparr>logged := logged s @ [line]\<rparr>"

text \<open>
  How a run of \<^verbatim>\<open>main\<close> ends: it returns (exit status 0), it calls
  \<^verbatim>\<open>os.Exit\<close>, or it panics (exit status 2). \<^verbatim>\<open>log.Fatal\<close> and
  \<^verbatim>\<open>log.Fatalf\<close> write the line and call \<^verbatim>\<open>os.Exit(1)\<close>.
\<close>

datatype ending = Returned | os_Exit nat | Panicked panic

fun exit_status :: "ending \<Rightarrow> nat" where
  "exit_status Returned = 0"
| "exit_status (os_Exit n) = n"
| "exit_status (Panicked p) = 2"

definition log_Fatal :: "string \<Rightarrow> state \<Rightarrow> ending \<times> state" where
  "log_Fatal line s = (os_Exit 1, log_Printf line s)"

text \<open>Each request asks the world with the calls made so far and records itself.\<close>

definition LoadDefaultConfig ::
  "'cfg world \<Rightarrow> LoadOption list \<Rightarrow> state \<Rightarrow> (error + 'cfg) \<times> state" where
  "LoadDefaultConfig w opts s =
     (config_LoadDefaultConfig w (calls s) opts, issue (LoadDefaultConfigOpts opts) s)"

definition ListStackResources ::
  "'cfg world \<Rightarrow> 'cfg \<Rightarrow> string \<Rightarrow> string option \<Rightarrow> state
     \<Rightarrow> (error + ListStackResourcesOutput) \<times> state" where
  "ListStackResources w cfg stack tok s =
     (cfn_ListStackResources w (calls s) cfg stack tok, issue (ListStackResourcesInput stack tok) s)"

definition ListServices ::
  "'cfg world \<Rightarrow> 'cfg \<Rightarrow> string \<Rightarrow> string option \<Rightarrow> state
     \<Rightarrow> (error + ListServicesOutput) \<times> state" where
  "ListServices w cfg cluster tok s =
     (ecs_ListServices w (calls s) cfg cluster tok, issue (ListServicesInput cluster tok) s)"

definition UpdateService ::
  "'cfg world \<Rightarrow> 'cfg \<Rightarrow> string \<Rightarrow> string \<Rightarrow> int \<Rightarrow> state \<Rightarrow> error option \<times> state" where
  "UpdateService w cfg cluster service desired s =
     (ecs_UpdateService w (calls s) cfg cluster service desired,
      issue (UpdateServiceInput cluster service desired) s)"

definition Wait ::
  "'cfg world \<Rightarrow> 'cfg \<Rightarrow> string \<Rightarrow> string list \<Rightarrow> int \<Rightarrow> state \<Rightarrow> error option \<times> state" where
  "Wait w cfg cluster services maxWait s =
     (ecs_ServicesStableWaiter_Wait w (calls s) cfg cluster services maxWait,
      issue (ServicesStableWait cluster services maxWait) s)"

definition DeleteService ::
  "'cfg world \<Rightarrow> 'cfg \<Rightarrow> string \<Rightarrow> string \<Rightarrow> bool \<Rightarrow> state \<Rightarrow> error option \<times> state" where
  "DeleteService w cfg cluster service force s =
     (ecs_DeleteService w (calls s) cfg cluster service force,
      issue (DeleteServiceInput cluster service force) s)"

definition ListTasks ::
  "'cfg world \<Rightarrow> 'cfg \<Rightarrow> string \<Rightarrow> DesiredStatus \<Rightarrow> string option \<Rightarrow> state
     \<Rightarrow> (error + ListTasksOutput) \<times> state" where
  "ListTasks w cfg cluster status tok s =
     (ecs_ListTasks w (calls s) cfg cluster status tok, issue (ListTasksInput cluster status tok) s)"

definition StopTask ::
  "'cfg world \<Rightarrow> 'cfg \<Rightarrow> string \<Rightarrow> string \<Rightarrow> string \<Rightarrow> state \<Rightarrow> error option \<times> state" where
  "StopTask w cfg cluster task reason s =
     (ecs_StopTask w (calls s) cfg cluster task reason, issue (StopTaskInput cluster task reason) s)"

definition Run :: "'cfg world \<Rightarrow> Cmd \<Rightarrow> state \<Rightarrow> error option \<times> state" where
  "Run w cmd s = (cmd_Run w (calls s) cmd, issue (CmdRun cmd) s)"

definition time_Minute :: int where
  "time_Minute = 60 * 1000000000"

section \<open>The stages shared by both variants\<close>

text \<open>
  \<^verbatim>\<open>main.go\<close> exists in two variants: variant A (flags \<^verbatim>\<open>--cdk-app-dir\<close>,
  \<^verbatim>\<open>--cdk-app-file\<close>, \<^verbatim>\<open>--region\<close>) and variant B (flags \<^verbatim>\<open>--cdk-app-path\<close>,
  \<^verbatim>\<open>--cdk-app-root\<close>). \<^verbatim>\<open>waitForServiceStable\<close>, \<^verbatim>\<open>deleteEcsServices\<close> and
  \<^verbatim>\<open>arnToName\<close> behave the same in both; the other functions carry the suffix of
  their variant.
\<close>

definition waitForServiceStable ::
  "'cfg world \<Rightarrow> 'cfg \<Rightarrow> string \<Rightarrow> string \<Rightarrow> state \<Rightarrow> error option \<times> state" where
  "waitForServiceStable w cfg clusterName serviceName s =
     (let maxWait = 10 * time_Minute
      in Wait w cfg clusterName [serviceName] maxWait s)"

text \<open>The body of \<^verbatim>\<open>for _, svcArn := range listOut.ServiceArns\<close>, service by service.\<close>

fun deleteEcsServices_loop ::
  "'cfg world \<Rightarrow> 'cfg \<Rightarrow> string \<Rightarrow> string list \<Rightarrow> state \<Rightarrow> (panic + unit) \<times> state" where
  "deleteEcsServices_loop w cfg clusterName [] s = (Inr (), s)"
| "deleteEcsServices_loop w cfg clusterName (svcArn # rest) s =
     (case arnToName svcArn of
        Inl p \<Rightarrow> (Inl p, s)
      | Inr svcName \<Rightarrow>
          (let s1 = log_Printf (''[Service: '' @ svcName @ ''] Setting desired count to 0...'') s;
               (err, s2) = UpdateService w cfg clusterName svcName 0 s1
           in case err of
                Some e \<Rightarrow>
                  deleteEcsServices_loop w cfg clusterName rest
                    (log_Printf (''Failed to update service('' @ svcName @ '') desiredCount=0: '' @ Error e) s2)
              | None \<Rightarrow>
                  (let (werr, s3) = waitForServiceStable w cfg clusterName svcName s2;
                       s4 = (case werr of
                               Some e \<Rightarrow> log_Printf (''waitForServiceStable failed for service('' @ svcName @ ''): '' @ Error e) s3
                             | None \<Rightarrow> s3);
                       s5 = log_Printf (''[Service: '' @ svcName @ ''] Deleting...'') s4;
                       (derr, s6) = DeleteService w cfg clusterName svcName True s5;
                       s7 = (case derr of
                               Some e \<Rightarrow> log_Printf (''Failed to delete service('' @ svcName @ ''): '' @ Error e) s6
                             | None \<Rightarrow> s6)
                   in deleteEcsServices_loop w cfg clusterName rest s7)))"

definition deleteEcsServices ::
  "'cfg world \<Rightarrow> 'cfg \<Rightarrow> string \<Rightarrow> state \<Rightarrow> (panic + error option) \<times> state" where
  "deleteEcsServices w cfg clusterName s =
     (let (r, s1) = ListServices w cfg clusterName None s
      in case r of
           Inl err \<Rightarrow> (Inr (Some (fmt_Errorf ''ListServices error: '' err)), s1)
         | Inr listOut \<Rightarrow>
             if length (ServiceArns listOut) = 0
             then (Inr None, log_Printf (''No ECS services found in cluster: '' @ clusterName) s1)
             else (case deleteEcsServices_loop w cfg clusterName (ServiceArns listOut) s1 of
                     (Inl p, s2) \<Rightarrow> (Inl p, s2)
                   | (Inr u, s2) \<Rightarrow> (Inr None, s2)))"

text \<open>
  The body of \<^verbatim>\<open>for _, taskArn := range listOut.TaskArns\<close>: the stop request names the
  task by its ARN, the log lines by its short name.
\<close>

fun stopRemainingTasks_loop ::
  "'cfg world \<Rightarrow> 'cfg \<Rightarrow> string \<Rightarrow> string list \<Rightarrow> state \<Rightarrow> (panic + unit) \<times> state" where
  "stopRemainingTasks_loop w cfg clusterName [] s = (Inr (), s)"
| "stopRemainingTasks_loop w cfg clusterName (taskArn # rest) s =
     (case arnToName taskArn of
        Inl p \<Rightarrow> (Inl p, s)
      | Inr taskName \<Rightarrow>
          (let s1 = log_Printf (''[Task: '' @ taskName @ ''] Stopping...'') s;
               (err, s2) = StopTask w cfg clusterName taskArn ''Cleanup before destroy'' s1;
               s3 = (case err of
                       Some e \<Rightarrow> log_Printf (''Failed to stop task('' @ taskName @ ''): '' @ Error e) s2
                     | None \<Rightarrow> s2)
           in stopRemainingTasks_loop w cfg clusterName rest s3))"

text \<open>
  \<^verbatim>\<open>stopRemainingTasks\<close>: the variants differ in the line logged for an empty list
  (the first argument here).
\<close>

definition stopRemainingTasks ::
  "string \<Rightarrow> 'cfg world \<Rightarrow> 'cfg \<Rightarrow> string \<Rightarrow> state \<Rightarrow> (panic + error option) \<times> state" where
  "stopRemainingTasks none_msg w cfg clusterName s =
     (let (r, s1) = ListTasks w cfg clusterName DesiredStatusRunning None s
      in case r of
           Inl err \<Rightarrow> (Inr (Some (fmt_Errorf ''ListTasks error: '' err)), s1)
         | Inr listOut \<Rightarrow>
             if length (TaskArns listOut) = 0
             then (Inr None, log_Printf (none_msg @ clusterName) s1)
             else (case stopRemainingTasks_loop w cfg clusterName (TaskArns listOut) s1 of
                     (Inl p, s2) \<Rightarrow> (Inl p, s2)
                   | (Inr u, s2) \<Rightarrow> (Inr None, s2)))"

definition stopRemainingTasks_A ::
  "'cfg world \<Rightarrow> 'cfg \<Rightarrow> string \<Rightarrow> state \<Rightarrow> (panic + error option) \<times> state" where
  "stopRemainingTasks_A = stopRemainingTasks ''No running tasks found in cluster: ''"

definition stopRemainingTasks_B ::
  "'cfg world \<Rightarrow> 'cfg \<Rightarrow> string \<Rightarrow> state \<Rightarrow> (panic + error option) \<times> state" where
  "stopRemainingTasks_B = stopRemainingTasks ''No running tasks in cluster: ''"

text \<open>The test \<^verbatim>\<open>r.ResourceType != nil && *r.ResourceType == "AWS::ECS::Cluster"\<close>.\<close>

definition is_cluster :: "StackResourceSummary \<Rightarrow> bool" where
  "is_cluster r =
     (case ResourceType r of None \<Rightarrow> False | Some ty \<Rightarrow> ty = ''AWS::ECS::Cluster'')"

section \<open>The log lines that are not ASCII\<close>

text \<open>
  Three messages of the source are Japanese; they are given here by their UTF-8 bytes.
  \<open>please_specify\<close> is the text after the flag's name in the two messages about a
  missing flag, \<open>no_cluster_A\<close> the text after the stack's name in variant A's line
  about a stack without a cluster.
\<close>

definition please_specify :: string where
  "please_specify =
     [CHR 0xE3, CHR 0x82, CHR 0x92, CHR 0xE6, CHR 0x8C, CHR 0x87, CHR 0xE5, CHR 0xAE, CHR 0x9A,
      CHR 0xE3, CHR 0x81, CHR 0x97, CHR 0xE3, CHR 0x81, CHR 0xA6, CHR 0xE3, CHR 0x81, CHR 0x8F,
      CHR 0xE3, CHR 0x81, CHR 0xA0, CHR 0xE3, CHR 0x81, CHR 0x95, CHR 0xE3, CHR 0x81, CHR 0x84,
      CHR 0xE3, CHR 0x80, CHR 0x82]"

definition no_cluster_A :: string where
  "no_cluster_A =
     '' '' @ [CHR 0xE5, CHR 0x86, CHR 0x85, CHR 0xE3, CHR 0x81, CHR 0xAB] @ '' ECS::Cluster '' @
     [CHR 0xE3, CHR 0x83, CHR 0xAA, CHR 0xE3, CHR 0x82, CHR 0xBD, CHR 0xE3, CHR 0x83, CHR 0xBC,
      CHR 0xE3, CHR 0x82, CHR 0xB9, CHR 0xE3, CHR 0x81, CHR 0x8C, CHR 0xE8, CHR 0xA6, CHR 0x8B,
      CHR 0xE3, CHR 0x81, CHR 0xA4, CHR 0xE3, CHR 0x81, CHR 0x8B, CHR 0xE3, CHR 0x82, CHR 0x8A,
      CHR 0xE3, CHR 0x81, CHR 0xBE, CHR 0xE3, CHR 0x81, CHR 0x9B, CHR 0xE3, CHR 0x82, CHR 0x93,
      CHR 0xE3, CHR 0x81, CHR 0xA7, CHR 0xE3, CHR 0x81, CHR 0x97, CHR 0xE3, CHR 0x81, CHR 0x9F,
      CHR 0xE3, CHR 0x80, CHR 0x82]"

section \<open>Variant A\<close>

definition loadAWSConfig_A ::
  "'cfg world \<Rightarrow> string \<Rightarrow> string \<Rightarrow> state \<Rightarrow> (error + 'cfg) \<times> state" where
  "loadAWSConfig_A w profile region s =
     (let opts = [WithRegion region];
          opts = (if profile \<noteq> [] then opts @ [WithSharedConfigProfile profile] else opts)
      in LoadDefaultConfig w opts s)"

text \<open>
  The scan of \<^verbatim>\<open>res.StackResourceSummaries\<close>; variant A reads the identifier with
  \<^verbatim>\<open>aws.ToString\<close>.
\<close>

fun scan_A :: "StackResourceSummary list \<Rightarrow> string" where
  "scan_A [] = []"
| "scan_A (r # rs) =
     (if is_cluster r then aws_ToString (PhysicalResourceId r) else scan_A rs)"

definition getEcsClusterNameFromStack_A ::
  "'cfg world \<Rightarrow> 'cfg \<Rightarrow> string \<Rightarrow> state \<Rightarrow> (error + string) \<times> state" where
  "getEcsClusterNameFromStack_A w cfg stackName s =
     (let (r, s1) = ListStackResources w cfg stackName None s
      in case r of
           Inl err \<Rightarrow> (Inl err, s1)
         | Inr res \<Rightarrow> (Inr (scan_A (StackResourceSummaries res)), s1))"

definition runCdkDestroy_A ::
  "'cfg world \<Rightarrow> string \<Rightarrow> string \<Rightarrow> string \<Rightarrow> string \<Rightarrow> string \<Rightarrow> state
     \<Rightarrow> error option \<times> state" where
  "runCdkDestroy_A w stackName profile region cdkAppDir cdkAppFile s =
     (let args = [''destroy'', ''--all'', ''--force''];
          args = (if profile \<noteq> [] then args @ [''--profile'', profile] else args);
          appPath = filepath_Join w cdkAppDir cdkAppFile;
          appArg = ''npx ts-node '' @ appPath;
          args = args @ [''--app'', appArg];
          s1 = log_Printf (''Executing: cdk '' @ strings_Join args '' '') s;
          cmd = exec_Command ''cdk'' args;
          cmd = cmd\<lparr>Stdout := Some os_Stdout\<rparr>;
          cmd = cmd\<lparr>Stderr := Some os_Stderr\<rparr>
      in Run w cmd s1)"

text \<open>
  Stage 4 and the end of \<^verbatim>\<open>main\<close> are written once, as \<open>destroy_stage_A\<close>:
  \<open>main_A\<close> reaches them on two paths (with and without a cluster).
  \<^verbatim>\<open>flag.Parse\<close> has run, and the values of the flags are the arguments of
  \<open>main_A\<close>; a flag that is not given has its default (the empty string for
  \<^verbatim>\<open>--stack\<close> and \<^verbatim>\<open>--profile\<close>). A run starts with no call made and
  nothing logged.
\<close>

definition destroy_stage_A ::
  "'cfg world \<Rightarrow> string \<Rightarrow> string \<Rightarrow> string \<Rightarrow> string \<Rightarrow> string \<Rightarrow> state \<Rightarrow> ending \<times> state" where
  "destroy_stage_A w stackName profile region cdkAppDir cdkAppFile s =
     (let (err, s1) = runCdkDestroy_A w stackName profile region cdkAppDir cdkAppFile s
      in case err of
           Some e \<Rightarrow> log_Fatal (''failed to run cdk destroy: '' @ Error e) s1
         | None \<Rightarrow> (Returned, log_Printf ''All done.'' s1))"

definition main_A ::
  "'cfg world \<Rightarrow> string \<Rightarrow> string \<Rightarrow> string \<Rightarrow> string \<Rightarrow> string \<Rightarrow> ending \<times> state" where
  "main_A w stackName profile region cdkAppDir cdkAppFile =
     (let s0 = \<lparr>calls = [], logged = []\<rparr>
      in if stackName = []
         then log_Fatal (''Error: --stack '' @ please_specify) s0
         else
           (let (r, s1) = loadAWSConfig_A w profile region s0
            in case r of
                 Inl err \<Rightarrow> log_Fatal (''failed to load config: '' @ Error err) s1
               | Inr cfg \<Rightarrow>
                   (let (r2, s2) = getEcsClusterNameFromStack_A w cfg stackName s1
                    in case r2 of
                         Inl err \<Rightarrow> log_Fatal (''failed to get ECS cluster name: '' @ Error err) s2
                       | Inr clusterName \<Rightarrow>
                           if clusterName = []
                           then destroy_stage_A w stackName profile region cdkAppDir cdkAppFile
                                  (log_Printf (''Stack '' @ stackName @ no_cluster_A) s2)
                           else
                             (let s3 = log_Printf (''Detected ECS Cluster: '' @ clusterName) s2;
                                  (r4, s4) = deleteEcsServices w cfg clusterName s3
                              in case r4 of
                                   Inl p \<Rightarrow> (Panicked p, s4)
                                 | Inr (Some err) \<Rightarrow>
                                     log_Fatal (''failed to delete ECS services: '' @ Error err) s4
                                 | Inr None \<Rightarrow>
                                     (let (r5, s5) = stopRemainingTasks_A w cfg clusterName s4
                                      in case r5 of
                                           Inl p \<Rightarrow> (Panicked p, s5)
                                         | Inr (Some err) \<Rightarrow>
                                             log_Fatal (''failed to stop remaining tasks: '' @ Error err) s5
                                         | Inr None \<Rightarrow>
                                             destroy_stage_A w stackName profile region cdkAppDir
                                               cdkAppFile s5)))))"

section \<open>Variant B\<close>

definition loadAWSConfig_B ::
  "'cfg world \<Rightarrow> string \<Rightarrow> state \<Rightarrow> (error + 'cfg) \<times> state" where
  "loadAWSConfig_B w profile s =
     (let opts = [];
          opts = (if profile \<noteq> [] then opts @ [WithSharedConfigProfile profile] else opts)
      in LoadDefaultConfig w opts s)"

text \<open>
  Variant B reads the identifier with \<^verbatim>\<open>*r.PhysicalResourceId\<close>, which panics on a
  nil pointer.
\<close>

fun scan_B :: "StackResourceSummary list \<Rightarrow> panic + string" where
  "scan_B [] = Inr []"
| "scan_B (r # rs) =
     (if is_cluster r
      then (case PhysicalResourceId r of
              None \<Rightarrow> Inl NilPointerDereference
            | Some v \<Rightarrow> Inr v)
      else scan_B rs)"

definition getEcsClusterNameFromStack_B ::
  "'cfg world \<Rightarrow> 'cfg \<Rightarrow> string \<Rightarrow> state \<Rightarrow> (panic + error + string) \<times> state" where
  "getEcsClusterNameFromStack_B w cfg stackName s =
     (let (r, s1) = ListStackResources w cfg stackName None s
      in case r of
           Inl err \<Rightarrow> (Inr (Inl err), s1)
         | Inr res \<Rightarrow>
             (case scan_B (StackResourceSummaries res) of
                Inl p \<Rightarrow> (Inl p, s1)
              | Inr name \<Rightarrow> (Inr (Inr name), s1)))"

definition runCdkDestroy_B ::
  "'cfg world \<Rightarrow> string \<Rightarrow> string \<Rightarrow> string \<Rightarrow> state \<Rightarrow> error option \<times> state" where
  "runCdkDestroy_B w profile cdkAppRoot cdkAppPath s =
     (let args = [''destroy'', ''--all'', ''--force''];
          args = (if profile \<noteq> [] then args @ [''--profile'', profile] else args);
          appArg = ''npx ts-node '' @ cdkAppPath;
          args = args @ [''--app'', appArg];
          s1 = log_Printf (''Executing: cdk '' @ strings_Join args '' '') s;
          cmd = exec_Command ''cdk'' args;
          cmd = cmd\<lparr>Dir := cdkAppRoot\<rparr>;
          cmd = cmd\<lparr>Stdout := Some os_Stdout\<rparr>;
          cmd = cmd\<lparr>Stderr := Some os_Stderr\<rparr>
      in Run w cmd s1)"

definition destroy_stage_B ::
  "'cfg world \<Rightarrow> string \<Rightarrow> string \<Rightarrow> string \<Rightarrow> state \<Rightarrow> ending \<times> state" where
  "destroy_stage_B w profile cdkAppRoot cdkAppPath s =
     (let (err, s1) = runCdkDestroy_B w profile cdkAppRoot cdkAppPath s
      in case err of
           Some e \<Rightarrow> log_Fatal (''Failed to run cdk destroy: '' @ Error e) s1
         | None \<Rightarrow> (Returned, log_Printf ''All done.'' s1))"

definition main_B ::
  "'cfg world \<Rightarrow> string \<Rightarrow> string \<Rightarrow> string \<Rightarrow> string \<Rightarrow> ending \<times> state" where
  "main_B w stackName profile cdkAppPath cdkAppRoot =
     (let s0 = \<lparr>calls = [], logged = []\<rparr>
      in if stackName = []
         then log_Fatal (''Error: --stack '' @ please_specify) s0
         else if cdkAppPath = []
         then log_Fatal (''Error: --cdk-app-path '' @ please_specify) s0
         else
           (let (r, s1) = loadAWSConfig_B w profile s0
            in case r of
                 Inl err \<Rightarrow> log_Fatal (''failed to load AWS config: '' @ Error err) s1
               | Inr cfg \<Rightarrow>
                   (let (r2, s2) = getEcsClusterNameFromStack_B w cfg stackName s1
                    in case r2 of
                         Inl p \<Rightarrow> (Panicked p, s2)
                       | Inr (Inl err) \<Rightarrow>
                           log_Fatal (''Failed to get ECS cluster name: '' @ Error err) s2
                       | Inr (Inr clusterName) \<Rightarrow>
                           if clusterName = []
                           then destroy_stage_B w profile cdkAppRoot cdkAppPath
                                  (log_Printf (''No ECS::Cluster in stack: '' @ stackName) s2)
                           else
                             (let (r4, s4) = deleteEcsServices w cfg clusterName s2
                              in case r4 of
                                   Inl p \<Rightarrow> (Panicked p, s4)
                                 | Inr (Some err) \<Rightarrow>
                                     log_Fatal (''Failed to delete ECS services: '' @ Error err) s4
                                 | Inr None \<Rightarrow>
                                     (let (r5, s5) = stopRemainingTasks_B w cfg clusterName s4
                                      in case r5 of
                                           Inl p \<Rightarrow> (Panicked p, s5)
                                         | Inr (Some err) \<Rightarrow>
                                             log_Fatal (''Failed to stop tasks: '' @ Error err) s5
                                         | Inr None \<Rightarrow>
                                             destroy_stage_B w profile cdkAppRoot cdkAppPath s5)))))"

section \<open>Reading a list of calls\<close>

text \<open>The child processes run, the listing requests, and the requests of stages 2 and 3.\<close>

fun commands :: "call list \<Rightarrow> Cmd list" where
  "commands [] = []"
| "commands (CmdRun cmd # cs) = cmd # commands cs"
| "commands (c # cs) = commands cs"

fun is_listing :: "call \<Rightarrow> bool" where
  "is_listing (ListStackResourcesInput stack tok) = True"
| "is_listing (ListServicesInput cluster tok) = True"
| "is_listing (ListTasksInput cluster status tok) = True"
| "is_listing c = False"

fun is_UpdateService :: "call \<Rightarrow> bool" where
  "is_UpdateService (UpdateServiceInput cluster service desired) = True"
| "is_UpdateService c = False"

fun is_drain_or_stop :: "call \<Rightarrow> bool" where
  "is_drain_or_stop (ListServicesInput cluster tok) = True"
| "is_drain_or_stop (UpdateServiceInput cluster service desired) = True"
| "is_drain_or_stop (ServicesStableWait cluster services maxWait) = True"
| "is_drain_or_stop (DeleteServiceInput cluster service force) = True"
| "is_drain_or_stop (ListTasksInput cluster status tok) = True"
| "is_drain_or_stop (StopTaskInput cluster task reason) = True"
| "is_drain_or_stop c = False"

text \<open>
  The same world with the continuation token of every listing response replaced by
  \<open>tok\<close>: a world that differs in what lies behind the first page only.
\<close>

definition with_NextToken :: "string option \<Rightarrow> 'cfg world \<Rightarrow> 'cfg world" where
  "with_NextToken tok w =
     w\<lparr>cfn_ListStackResources :=
         (\<lambda>h cfg stack t. map_sum id (\<lambda>out. out\<lparr>NextToken_resources := tok\<rparr>)
            (cfn_ListStackResources w h cfg stack t)),
       ecs_ListServices :=
         (\<lambda>h cfg cluster t. map_sum id (\<lambda>out. out\<lparr>NextToken_services := tok\<rparr>)
            (ecs_ListServices w h cfg cluster t)),
       ecs_ListTasks :=
         (\<lambda>h cfg cluster status t. map_sum id (\<lambda>out. out\<lparr>NextToken_tasks := tok\<rparr>)
            (ecs_ListTasks w h cfg cluster status t))\<rparr>"

section \<open>A sample world for concrete runs\<close>

text \<open>
  A world given by the answers of its three listing requests. Updating the service
  named \<open>B\<close> fails, every stability wait fails, every deletion succeeds, stopping the
  task with ARN \<open>task_1\<close> fails, and the child process exits with success. Paths are
  joined with \<open>/\<close>.
\<close>

definition service_A :: string where
  "service_A = ''arn:aws:ecs:region:acct:service/cluster-x/A''"

definition service_B :: string where
  "service_B = ''arn:aws:ecs:region:acct:service/cluster-x/B''"

definition task_1 :: string where
  "task_1 = ''arn:aws:ecs:region:acct:task/cluster-x/t1''"

definition task_2 :: string where
  "task_2 = ''arn:aws:ecs:region:acct:task/cluster-x/t2''"

definition sample_world ::
  "(error + StackResourceSummary list) \<Rightarrow> (error + string list) \<Rightarrow> (error + string list)
     \<Rightarrow> unit world" where
  "sample_world resources services tasks =
     \<lparr>config_LoadDefaultConfig = (\<lambda>h opts. Inr ()),
      cfn_ListStackResources =
        (\<lambda>h cfg stack tok.
           case resources of
             Inl e \<Rightarrow> Inl e
           | Inr rs \<Rightarrow> Inr \<lparr>StackResourceSummaries = rs, NextToken_resources = Some ''more''\<rparr>),
      ecs_ListServices =
        (\<lambda>h cfg cluster tok.
           case services of
             Inl e \<Rightarrow> Inl e
           | Inr arns \<Rightarrow> Inr \<lparr>ServiceArns = arns, NextToken_services = Some ''more''\<rparr>),
      ecs_UpdateService =
        (\<lambda>h cfg cluster service desired.
           if service = ''B'' then Some (ErrorString ''update refused'') else None),
      ecs_ServicesStableWaiter_Wait =
        (\<lambda>h cfg cluster services maxWait. Some (ErrorString ''exceeded max wait time'')),
      ecs_DeleteService = (\<lambda>h cfg cluster service force. None),
      ecs_ListTasks =
        (\<lambda>h cfg cluster status tok.
           case tasks of
             Inl e \<Rightarrow> Inl e
           | Inr arns \<Rightarrow> Inr \<lparr>TaskArns = arns, NextToken_tasks = Some ''more''\<rparr>),
      ecs_StopTask =
        (\<lambda>h cfg cluster task reason.
           if task = task_1 then Some (ErrorString ''stop refused'') else None),
      cmd_Run = (\<lambda>h cmd. None),
      filepath_Join = (\<lambda>d f. d @ ''/'' @ f)\<rparr>"

definition cluster_resource :: "string option \<Rightarrow> StackResourceSummary" where
  "cluster_resource ident =
     \<lparr>ResourceType = Some ''AWS::ECS::Cluster'', PhysicalResourceId = ident\<rparr>"

definition bucket_resource :: StackResourceSummary where
  "bucket_resource =
     \<lparr>ResourceType = Some ''AWS::S3::Bucket'', PhysicalResourceId = Some ''bucket-1''\<rparr>"

text \<open>
  Five worlds: a stack with a cluster that has the services A and B and the tasks 1 and
  2; one with nothing in it; one whose listings are all denied; a stack without a
  cluster; and a stack whose cluster resource has no physical identifier.
\<close>

definition busy_world :: "unit world" where
  "busy_world =
     sample_world (Inr [bucket_resource, cluster_resource (Some ''cluster-x'')])
       (Inr [service_A, service_B]) (Inr [task_1, task_2])"

definition idle_world :: "unit world" where
  "idle_world = sample_world (Inr []) (Inr []) (Inr [])"

definition denied_world :: "unit world" where
  "denied_world =
     sample_world (Inl (ErrorString ''AccessDenied'')) (Inl (ErrorString ''AccessDenied''))
       (Inl (ErrorString ''AccessDenied''))"

definition no_cluster_world :: "unit world" where
  "no_cluster_world = sample_world (Inr [bucket_resource]) (Inr [service_A]) (Inr [task_1])"

definition unnamed_cluster_world :: "unit world" where
  "unnamed_cluster_world =
     sample_world (Inr [bucket_resource, cluster_resource None]) (Inr []) (Inr [])"

definition start :: state where
  "start = \<lparr>calls = [], logged = []\<rparr>"

section \<open>Properties of the stages\<close>

lemma strings_Split_not_Nil: "strings_Split s sep \<noteq> []"
  by (induction s) (auto split: list.splits)

lemma index_last: "xs \<noteq> [] \<Longrightarrow> index xs (int (length xs) - 1) = Inr (last xs)"
proof -
  assume ne: "xs \<noteq> []"
  then have "0 < length xs" by simp
  then have "nat (int (length xs) - 1) = length xs - 1" by simp
  with ne show ?thesis by (simp add: index_def last_conv_nth)
qed

lemma arnToName_last: "arnToName arn = Inr (last (strings_Split arn CHR ''/''))"
  by (simp add: arnToName_def Let_def index_last strings_Split_not_Nil)

lemma last_Split_no_sep: "sep \<notin> set s \<Longrightarrow> strings_Split s sep = [s]"
  by (induction s) auto

lemma strings_Split_sep_tl: "tl (strings_Split (p @ sep # n) sep) \<noteq> []"
  by (induction p) (auto simp: strings_Split_not_Nil split: list.splits)

lemma last_Split_append:
  "last (strings_Split (p @ sep # n) sep) = last (strings_Split n sep)"
proof (induction p)
  case Nil
  show ?case by (simp add: strings_Split_not_Nil)
next
  case (Cons c p)
  obtain q qs where q: "strings_Split (p @ sep # n) sep = q # qs"
    by (cases "strings_Split (p @ sep # n) sep") (auto simp: strings_Split_not_Nil)
  have "qs \<noteq> []"
    using strings_Split_sep_tl [of p sep n] q by simp
  with Cons q show ?case by (auto split: list.splits)
qed

lemma last_Split_takeWhile:
  "last (strings_Split s sep) = rev (takeWhile (\<lambda>c. c \<noteq> sep) (rev s))"
proof (cases "sep \<in> set s")
  case False
  then have "takeWhile (\<lambda>c. c \<noteq> sep) (rev s) = rev s"
    by (auto simp: takeWhile_eq_all_conv)
  with False show ?thesis by (simp add: last_Split_no_sep del: takeWhile_eq_all_conv)
next
  case True
  then have "sep \<in> set (rev s)" by simp
  then obtain a b where ab: "rev s = a @ sep # b" and a: "sep \<notin> set a"
    by (meson split_list_first)
  then have s: "s = rev b @ sep # rev a"
    by (metis rev_append rev.simps(2) rev_rev_ident append.assoc append_Cons append_Nil)
  have "takeWhile (\<lambda>c. c \<noteq> sep) (a @ sep # b) = a @ takeWhile (\<lambda>c. c \<noteq> sep) (sep # b)"
    by (rule takeWhile_append2) (use a in auto)
  then have "takeWhile (\<lambda>c. c \<noteq> sep) (rev s) = a"
    using ab by simp
  moreover have "last (strings_Split s sep) = rev a"
    using a by (simp add: s last_Split_append last_Split_no_sep)
  ultimately show ?thesis by simp
qed

lemma stop_loop_calls:
  "fst (stopRemainingTasks_loop w cfg cl arns s) = Inr () \<and>
   calls (snd (stopRemainingTasks_loop w cfg cl arns s)) =
     calls s @ map (\<lambda>t. StopTaskInput cl t ''Cleanup before destroy'') arns"
proof (induction arns arbitrary: s)
  case Nil
  show ?case by simp
next
  case (Cons a arns)
  show ?case
    by (simp add: arnToName_last Let_def StopTask_def issue_def log_Printf_def Cons
        split: option.split)
qed

lemma delete_step_fail:
  assumes "arnToName svcArn = Inr svcName"
    and "ecs_UpdateService w (calls s) cfg cl svcName 0 = Some e"
  shows "deleteEcsServices_loop w cfg cl (svcArn # rest) s =
         deleteEcsServices_loop w cfg cl rest
           \<lparr>calls = calls s @ [UpdateServiceInput cl svcName 0],
            logged = logged s @
              [''[Service: '' @ svcName @ ''] Setting desired count to 0...'',
               ''Failed to update service('' @ svcName @ '') desiredCount=0: '' @ Error e]\<rparr>"
  using assms by (cases s) (simp add: Let_def UpdateService_def issue_def log_Printf_def)

lemma delete_step_ok:
  assumes "arnToName svcArn = Inr svcName"
    and "ecs_UpdateService w (calls s) cfg cl svcName 0 = None"
  shows "deleteEcsServices_loop w cfg cl (svcArn # rest) s =
         deleteEcsServices_loop w cfg cl rest
           \<lparr>calls = calls s @
              [UpdateServiceInput cl svcName 0,
               ServicesStableWait cl [svcName] (10 * time_Minute),
               DeleteServiceInput cl svcName True],
            logged = logged s @
              [''[Service: '' @ svcName @ ''] Setting desired count to 0...''] @
              (case ecs_ServicesStableWaiter_Wait w (calls s @ [UpdateServiceInput cl svcName 0]) cfg cl
                      [svcName] (10 * time_Minute) of
                 None \<Rightarrow> []
               | Some e \<Rightarrow> [''waitForServiceStable failed for service('' @ svcName @ ''): '' @ Error e]) @
              [''[Service: '' @ svcName @ ''] Deleting...''] @
              (case ecs_DeleteService w
                      (calls s @ [UpdateServiceInput cl svcName 0,
                                  ServicesStableWait cl [svcName] (10 * time_Minute)])
                      cfg cl svcName True of
                 None \<Rightarrow> []
               | Some e \<Rightarrow> [''Failed to delete service('' @ svcName @ ''): '' @ Error e])\<rparr>"
  using assms
  by (cases s)
     (simp add: Let_def UpdateService_def waitForServiceStable_def Wait_def DeleteService_def
        issue_def log_Printf_def split: option.split)

lemma delete_loop_returns: "fst (deleteEcsServices_loop w cfg cl arns s) = Inr ()"
proof (induction arns arbitrary: s)
  case Nil
  show ?case by simp
next
  case (Cons a arns)
  show ?case
  proof (cases "ecs_UpdateService w (calls s) cfg cl (last (strings_Split a CHR ''/'')) 0")
    case None
    show ?thesis by (simp only: delete_step_ok [OF arnToName_last None] Cons)
  next
    case (Some e)
    show ?thesis by (simp only: delete_step_fail [OF arnToName_last Some] Cons)
  qed
qed

lemma delete_loop_updates:
  "filter is_UpdateService (calls (snd (deleteEcsServices_loop w cfg cl arns s))) =
   filter is_UpdateService (calls s) @
     map (\<lambda>arn. UpdateServiceInput cl (last (strings_Split arn CHR ''/'')) 0) arns"
proof (induction arns arbitrary: s)
  case Nil
  show ?case by simp
next
  case (Cons a arns)
  show ?case
  proof (cases "ecs_UpdateService w (calls s) cfg cl (last (strings_Split a CHR ''/'')) 0")
    case None
    show ?thesis unfolding delete_step_ok [OF arnToName_last None] by (simp add: Cons)
  next
    case (Some e)
    show ?thesis unfolding delete_step_fail [OF arnToName_last Some] by (simp add: Cons)
  qed
qed

lemma delete_loop_listing:
  "filter is_listing (calls (snd (deleteEcsServices_loop w cfg cl arns s))) =
   filter is_listing (calls s)"
proof (induction arns arbitrary: s)
  case Nil
  show ?case by simp
next
  case (Cons a arns)
  show ?case
  proof (cases "ecs_UpdateService w (calls s) cfg cl (last (strings_Split a CHR ''/'')) 0")
    case None
    show ?thesis unfolding delete_step_ok [OF arnToName_last None] by (simp add: Cons)
  next
    case (Some e)
    show ?thesis unfolding delete_step_fail [OF arnToName_last Some] by (simp add: Cons)
  qed
qed

lemma delete_loop_token:
  "deleteEcsServices_loop (with_NextToken tok w) cfg cl arns s =
   deleteEcsServices_loop w cfg cl arns s"
  by (induction arns arbitrary: s)
     (simp_all add: with_NextToken_def Let_def UpdateService_def waitForServiceStable_def
        Wait_def DeleteService_def split: sum.split option.split prod.split)

lemma stop_loop_token:
  "stopRemainingTasks_loop (with_NextToken tok w) cfg cl arns s =
   stopRemainingTasks_loop w cfg cl arns s"
  by (induction arns arbitrary: s)
     (simp_all add: with_NextToken_def Let_def StopTask_def split: sum.split option.split prod.split)

lemmas world_defs =
  sample_world_def busy_world_def idle_world_def denied_world_def no_cluster_world_def
  unnamed_cluster_world_def

lemma deleteEcsServices_fail:
  assumes "ecs_ListServices w (calls s) cfg cl None = Inl err"
  shows "deleteEcsServices w cfg cl s =
         (Inr (Some (fmt_Errorf ''ListServices error: '' err)), issue (ListServicesInput cl None) s)"
  using assms by (simp add: deleteEcsServices_def ListServices_def)

lemma deleteEcsServices_ok:
  assumes "ecs_ListServices w (calls s) cfg cl None = Inr out"
  shows "fst (deleteEcsServices w cfg cl s) = Inr None"
proof (cases "ServiceArns out = []")
  case True
  with assms show ?thesis by (simp add: deleteEcsServices_def ListServices_def)
next
  case False
  have "fst (deleteEcsServices_loop w cfg cl (ServiceArns out) (issue (ListServicesInput cl None) s)) = Inr ()"
    by (rule delete_loop_returns)
  with assms False show ?thesis
    by (auto simp: deleteEcsServices_def ListServices_def split: prod.split sum.split)
qed

lemma deleteEcsServices_empty:
  assumes "ecs_ListServices w (calls s) cfg cl None = Inr out" and "ServiceArns out = []"
  shows "deleteEcsServices w cfg cl s =
         (Inr None,
          log_Printf (''No ECS services found in cluster: '' @ cl) (issue (ListServicesInput cl None) s))"
  using assms by (simp add: deleteEcsServices_def ListServices_def)

lemma stopRemainingTasks_fail:
  assumes "ecs_ListTasks w (calls s) cfg cl DesiredStatusRunning None = Inl err"
  shows "stopRemainingTasks msg w cfg cl s =
         (Inr (Some (fmt_Errorf ''ListTasks error: '' err)),
          issue (ListTasksInput cl DesiredStatusRunning None) s)"
  using assms by (simp add: stopRemainingTasks_def ListTasks_def)

lemma stopRemainingTasks_empty:
  assumes "ecs_ListTasks w (calls s) cfg cl DesiredStatusRunning None = Inr out"
    and "TaskArns out = []"
  shows "stopRemainingTasks msg w cfg cl s =
         (Inr None, log_Printf (msg @ cl) (issue (ListTasksInput cl DesiredStatusRunning None) s))"
  using assms by (simp add: stopRemainingTasks_def ListTasks_def)

lemma stopRemainingTasks_ok:
  assumes "ecs_ListTasks w (calls s) cfg cl DesiredStatusRunning None = Inr out"
  shows "fst (stopRemainingTasks msg w cfg cl s) = Inr None \<and>
         calls (snd (stopRemainingTasks msg w cfg cl s)) =
           calls s @ ListTasksInput cl DesiredStatusRunning None #
             map (\<lambda>t. StopTaskInput cl t ''Cleanup before destroy'') (TaskArns out)"
proof (cases "TaskArns out = []")
  case True
  with assms show ?thesis
    by (simp add: stopRemainingTasks_def ListTasks_def issue_def log_Printf_def)
next
  case False
  let ?s1 = "issue (ListTasksInput cl DesiredStatusRunning None) s"
  obtain s2 where loop: "stopRemainingTasks_loop w cfg cl (TaskArns out) ?s1 = (Inr (), s2)"
    and s2: "calls s2 = calls ?s1 @ map (\<lambda>t. StopTaskInput cl t ''Cleanup before destroy'') (TaskArns out)"
    using stop_loop_calls [of w cfg cl "TaskArns out" ?s1]
    by (cases "stopRemainingTasks_loop w cfg cl (TaskArns out) ?s1") auto
  from assms False loop s2 show ?thesis
    by (simp add: stopRemainingTasks_def ListTasks_def issue_def)
qed

lemma runCdkDestroy_B_eq:
  "runCdkDestroy_B w profile cdkAppRoot cdkAppPath s =
     (cmd_Run w (calls s)
        \<lparr>Path = ''cdk'',
         Args = [''cdk'', ''destroy'', ''--all'', ''--force''] @
                (if profile = [] then [] else [''--profile'', profile]) @
                [''--app'', ''npx ts-node '' @ cdkAppPath],
         Dir = cdkAppRoot, Stdout = Some os_Stdout, Stderr = Some os_Stderr\<rparr>,
      \<lparr>calls = calls s @
         [CmdRun
            \<lparr>Path = ''cdk'',
             Args = [''cdk'', ''destroy'', ''--all'', ''--force''] @
                    (if profile = [] then [] else [''--profile'', profile]) @
                    [''--app'', ''npx ts-node '' @ cdkAppPath],
             Dir = cdkAppRoot, Stdout = Some os_Stdout, Stderr = Some os_Stderr\<rparr>],
       logged = logged s @
         [''Executing: cdk '' @
          strings_Join
            ([''destroy'', ''--all'', ''--force''] @
             (if profile = [] then [] else [''--profile'', profile]) @
             [''--app'', ''npx ts-node '' @ cdkAppPath]) '' '']\<rparr>)"
  by (cases s) (simp add: runCdkDestroy_B_def Let_def Run_def issue_def log_Printf_def exec_Command_def)

lemma runCdkDestroy_A_eq:
  "runCdkDestroy_A w stackName profile region cdkAppDir cdkAppFile s =
     (cmd_Run w (calls s)
        \<lparr>Path = ''cdk'',
         Args = [''cdk'', ''destroy'', ''--all'', ''--force''] @
                (if profile = [] then [] else [''--profile'', profile]) @
                [''--app'', ''npx ts-node '' @ filepath_Join w cdkAppDir cdkAppFile],
         Dir = [], Stdout = Some os_Stdout, Stderr = Some os_Stderr\<rparr>,
      \<lparr>calls = calls s @
         [CmdRun
            \<lparr>Path = ''cdk'',
             Args = [''cdk'', ''destroy'', ''--all'', ''--force''] @
                    (if profile = [] then [] else [''--profile'', profile]) @
                    [''--app'', ''npx ts-node '' @ filepath_Join w cdkAppDir cdkAppFile],
             Dir = [], Stdout = Some os_Stdout, Stderr = Some os_Stderr\<rparr>],
       logged = logged s @
         [''Executing: cdk '' @
          strings_Join
            ([''destroy'', ''--all'', ''--force''] @
             (if profile = [] then [] else [''--profile'', profile]) @
             [''--app'', ''npx ts-node '' @ filepath_Join w cdkAppDir cdkAppFile]) '' '']\<rparr>)"
  by (cases s) (simp add: runCdkDestroy_A_def Let_def Run_def issue_def log_Printf_def exec_Command_def)

lemma destroy_stage_A_calls:
  "calls (snd (destroy_stage_A w stackName profile region cdkAppDir cdkAppFile s)) =
     calls s @
       [CmdRun
          \<lparr>Path = ''cdk'',
           Args = [''cdk'', ''destroy'', ''--all'', ''--force''] @
                  (if profile = [] then [] else [''--profile'', profile]) @
                  [''--app'', ''npx ts-node '' @ filepath_Join w cdkAppDir cdkAppFile],
           Dir = [], Stdout = Some os_Stdout, Stderr = Some os_Stderr\<rparr>]"
  by (simp add: destroy_stage_A_def runCdkDestroy_A_eq log_Fatal_def log_Printf_def
      split: option.split)

lemma destroy_stage_B_calls:
  "calls (snd (destroy_stage_B w profile cdkAppRoot cdkAppPath s)) =
     calls s @
       [CmdRun
          \<lparr>Path = ''cdk'',
           Args = [''cdk'', ''destroy'', ''--all'', ''--force''] @
                  (if profile = [] then [] else [''--profile'', profile]) @
                  [''--app'', ''npx ts-node '' @ cdkAppPath],
           Dir = cdkAppRoot, Stdout = Some os_Stdout, Stderr = Some os_Stderr\<rparr>]"
  by (simp add: destroy_stage_B_def runCdkDestroy_B_eq log_Fatal_def log_Printf_def
      split: option.split)

lemma getEcsClusterNameFromStack_A_calls:
  "calls (snd (getEcsClusterNameFromStack_A w cfg stackName s)) =
     calls s @ [ListStackResourcesInput stackName None]"
  by (simp add: getEcsClusterNameFromStack_A_def ListStackResources_def issue_def split: sum.split)

lemma getEcsClusterNameFromStack_B_calls:
  "calls (snd (getEcsClusterNameFromStack_B w cfg stackName s)) =
     calls s @ [ListStackResourcesInput stackName None]"
  by (simp add: getEcsClusterNameFromStack_B_def ListStackResources_def issue_def split: sum.split)

lemma with_NextToken_sel:
  "cfn_ListStackResources (with_NextToken tok w) h cfg stack t =
     map_sum id (\<lambda>out. out\<lparr>NextToken_resources := tok\<rparr>) (cfn_ListStackResources w h cfg stack t)"
  "ecs_ListServices (with_NextToken tok w) h cfg cl t =
     map_sum id (\<lambda>out. out\<lparr>NextToken_services := tok\<rparr>) (ecs_ListServices w h cfg cl t)"
  "ecs_ListTasks (with_NextToken tok w) h cfg cl st t =
     map_sum id (\<lambda>out. out\<lparr>NextToken_tasks := tok\<rparr>) (ecs_ListTasks w h cfg cl st t)"
  "config_LoadDefaultConfig (with_NextToken tok w) = config_LoadDefaultConfig w"
  "cmd_Run (with_NextToken tok w) = cmd_Run w"
  "filepath_Join (with_NextToken tok w) = filepath_Join w"
  by (simp_all add: with_NextToken_def)

lemma getEcsClusterNameFromStack_A_token:
  "getEcsClusterNameFromStack_A (with_NextToken tok w) cfg stack s =
   getEcsClusterNameFromStack_A w cfg stack s"
  by (cases "cfn_ListStackResources w (calls s) cfg stack None")
     (simp_all add: getEcsClusterNameFromStack_A_def ListStackResources_def with_NextToken_sel)

lemma getEcsClusterNameFromStack_B_token:
  "getEcsClusterNameFromStack_B (with_NextToken tok w) cfg stack s =
   getEcsClusterNameFromStack_B w cfg stack s"
  by (cases "cfn_ListStackResources w (calls s) cfg stack None")
     (simp_all add: getEcsClusterNameFromStack_B_def ListStackResources_def with_NextToken_sel)

lemma deleteEcsServices_token:
  "deleteEcsServices (with_NextToken tok w) cfg cl s = deleteEcsServices w cfg cl s"
  by (cases "ecs_ListServices w (calls s) cfg cl None")
     (simp_all add: deleteEcsServices_def ListServices_def with_NextToken_sel delete_loop_token)

lemma stopRemainingTasks_token:
  "stopRemainingTasks msg (with_NextToken tok w) cfg cl s = stopRemainingTasks msg w cfg cl s"
  by (cases "ecs_ListTasks w (calls s) cfg cl DesiredStatusRunning None")
     (simp_all add: stopRemainingTasks_def ListTasks_def with_NextToken_sel stop_loop_token)

lemma destroy_stage_A_token:
  "destroy_stage_A (with_NextToken tok w) stackName profile region d f s =
   destroy_stage_A w stackName profile region d f s"
  by (simp add: destroy_stage_A_def runCdkDestroy_A_def Run_def with_NextToken_sel)

lemma destroy_stage_B_token:
  "destroy_stage_B (with_NextToken tok w) profile root path s =
   destroy_stage_B w profile root path s"
  by (simp add: destroy_stage_B_def runCdkDestroy_B_def Run_def with_NextToken_sel)

lemma loadAWSConfig_A_token:
  "loadAWSConfig_A (with_NextToken tok w) profile region s = loadAWSConfig_A w profile region s"
  by (simp add: loadAWSConfig_A_def LoadDefaultConfig_def with_NextToken_sel)

lemma loadAWSConfig_B_token:
  "loadAWSConfig_B (with_NextToken tok w) profile s = loadAWSConfig_B w profile s"
  by (simp add: loadAWSConfig_B_def LoadDefaultConfig_def with_NextToken_sel)

lemma stopRemainingTasks_A_token:
  "stopRemainingTasks_A (with_NextToken tok w) cfg cl s = stopRemainingTasks_A w cfg cl s"
  by (simp add: stopRemainingTasks_A_def stopRemainingTasks_token)

lemma stopRemainingTasks_B_token:
  "stopRemainingTasks_B (with_NextToken tok w) cfg cl s = stopRemainingTasks_B w cfg cl s"
  by (simp add: stopRemainingTasks_B_def stopRemainingTasks_token)

lemma main_A_token:
  "main_A (with_NextToken tok w) stackName profile region d f = main_A w stackName profile region d f"
  by (simp only: main_A_def loadAWSConfig_A_token getEcsClusterNameFromStack_A_token
      deleteEcsServices_token stopRemainingTasks_A_token destroy_stage_A_token)

lemma main_B_token:
  "main_B (with_NextToken tok w) stackName profile path root = main_B w stackName profile path root"
  by (simp only: main_B_def loadAWSConfig_B_token getEcsClusterNameFromStack_B_token
      deleteEcsServices_token stopRemainingTasks_B_token destroy_stage_B_token)

lemma deleteEcsServices_listing:
  "filter is_listing (calls (snd (deleteEcsServices w cfg cl s))) =
   filter is_listing (calls s) @ [ListServicesInput cl None]"
proof (cases "ecs_ListServices w (calls s) cfg cl None")
  case (Inl e)
  then show ?thesis by (simp add: deleteEcsServices_def ListServices_def issue_def)
next
  case (Inr out)
  let ?s1 = "issue (ListServicesInput cl None) s"
  have "filter is_listing (calls (snd (deleteEcsServices_loop w cfg cl (ServiceArns out) ?s1))) =
        filter is_listing (calls ?s1)"
    by (rule delete_loop_listing)
  with Inr show ?thesis
    by (cases "deleteEcsServices_loop w cfg cl (ServiceArns out) ?s1")
       (auto simp: deleteEcsServices_def ListServices_def issue_def log_Printf_def split: sum.split)
qed

lemma stopRemainingTasks_listing:
  "filter is_listing (calls (snd (stopRemainingTasks msg w cfg cl s))) =
   filter is_listing (calls s) @ [ListTasksInput cl DesiredStatusRunning None]"
proof (cases "ecs_ListTasks w (calls s) cfg cl DesiredStatusRunning None")
  case (Inl e)
  then show ?thesis by (simp add: stopRemainingTasks_fail issue_def)
next
  case (Inr out)
  have "filter is_listing (map (\<lambda>t. StopTaskInput cl t ''Cleanup before destroy'') (TaskArns out)) = []"
    by (induction "TaskArns out" arbitrary: out) (simp_all add: filter_empty_conv)
  then show ?thesis using stopRemainingTasks_ok [OF Inr, of msg] by simp
qed

lemma deleteEcsServices_updates:
  assumes "ecs_ListServices w (calls s) cfg cl None = Inr out"
  shows "filter is_UpdateService (calls (snd (deleteEcsServices w cfg cl s))) =
         filter is_UpdateService (calls s) @
           map (\<lambda>arn. UpdateServiceInput cl (last (strings_Split arn CHR ''/'')) 0) (ServiceArns out)"
proof -
  let ?s1 = "issue (ListServicesInput cl None) s"
  have "filter is_UpdateService (calls (snd (deleteEcsServices_loop w cfg cl (ServiceArns out) ?s1))) =
        filter is_UpdateService (calls ?s1) @
          map (\<lambda>arn. UpdateServiceInput cl (last (strings_Split arn CHR ''/'')) 0) (ServiceArns out)"
    by (rule delete_loop_updates)
  with assms show ?thesis
    by (cases "deleteEcsServices_loop w cfg cl (ServiceArns out) ?s1")
       (auto simp: deleteEcsServices_def ListServices_def issue_def log_Printf_def split: sum.split)
qed

lemma scan_A_find:
  "scan_A rs =
     (case find is_cluster rs of None \<Rightarrow> [] | Some r \<Rightarrow> aws_ToString (PhysicalResourceId r))"
  by (induction rs) simp_all

lemma scan_B_find:
  "scan_B rs =
     (case find is_cluster rs of
        None \<Rightarrow> Inr []
      | Some r \<Rightarrow>
          (case PhysicalResourceId r of None \<Rightarrow> Inl NilPointerDereference | Some v \<Rightarrow> Inr v))"
  by (induction rs) simp_all

lemma inspector_A_result:
  "getEcsClusterNameFromStack_A w cfg stackName s =
     (case cfn_ListStackResources w (calls s) cfg stackName None of
        Inl err \<Rightarrow> Inl err
      | Inr res \<Rightarrow>
          Inr (case find is_cluster (StackResourceSummaries res) of
                 None \<Rightarrow> []
               | Some r \<Rightarrow> aws_ToString (PhysicalResourceId r)),
      issue (ListStackResourcesInput stackName None) s)"
  by (simp add: getEcsClusterNameFromStack_A_def ListStackResources_def scan_A_find split: sum.split)

lemma inspector_B_result:
  "getEcsClusterNameFromStack_B w cfg stackName s =
     (case cfn_ListStackResources w (calls s) cfg stackName None of
        Inl err \<Rightarrow> Inr (Inl err)
      | Inr res \<Rightarrow>
          (case find is_cluster (StackResourceSummaries res) of
             None \<Rightarrow> Inr (Inr [])
           | Some r \<Rightarrow>
               (case PhysicalResourceId r of
                  None \<Rightarrow> Inl NilPointerDereference
                | Some v \<Rightarrow> Inr (Inr v))),
      issue (ListStackResourcesInput stackName None) s)"
  by (simp add: getEcsClusterNameFromStack_B_def ListStackResources_def scan_B_find
      split: sum.split option.split)

lemma deleteEcsServices_nonempty:
  assumes "ecs_ListServices w (calls s) cfg cl None = Inr out" and "ServiceArns out \<noteq> []"
  shows "deleteEcsServices w cfg cl s =
         (Inr None,
          snd (deleteEcsServices_loop w cfg cl (ServiceArns out) (issue (ListServicesInput cl None) s)))"
proof -
  let ?r = "deleteEcsServices_loop w cfg cl (ServiceArns out) (issue (ListServicesInput cl None) s)"
  have "fst ?r = Inr ()" by (rule delete_loop_returns)
  then obtain s2 where "?r = (Inr (), s2)" by (cases ?r) auto
  with assms show ?thesis by (simp add: deleteEcsServices_def ListServices_def)
qed

lemma destroy_stage_A_returns:
  assumes "\<forall>h cmd. cmd_Run w h cmd = None"
  shows "fst (destroy_stage_A w stackName profile region d f s) = Returned"
  using assms by (simp add: destroy_stage_A_def runCdkDestroy_A_eq)

lemma destroy_stage_B_returns:
  assumes "\<forall>h cmd. cmd_Run w h cmd = None"
  shows "fst (destroy_stage_B w profile root path s) = Returned"
  using assms by (simp add: destroy_stage_B_def runCdkDestroy_B_eq)

lemma main_A_returns:
  assumes stack: "stackName \<noteq> []"
    and config: "\<forall>h opts. \<exists>cfg. config_LoadDefaultConfig w h opts = Inr cfg"
    and resources: "\<forall>h cfg st tok. \<exists>out. cfn_ListStackResources w h cfg st tok = Inr out"
    and services: "\<forall>h cfg cl tok. \<exists>out. ecs_ListServices w h cfg cl tok = Inr out"
    and tasks: "\<forall>h cfg cl st tok. \<exists>out. ecs_ListTasks w h cfg cl st tok = Inr out"
    and run: "\<forall>h cmd. cmd_Run w h cmd = None"
  shows "fst (main_A w stackName profile region cdkAppDir cdkAppFile) = Returned"
proof -
  let ?s0 = "\<lparr>calls = [], logged = []\<rparr>"
  obtain cfg s1 where load: "loadAWSConfig_A w profile region ?s0 = (Inr cfg, s1)"
    using config by (auto simp: loadAWSConfig_A_def LoadDefaultConfig_def Let_def)
  obtain name s2 where insp: "getEcsClusterNameFromStack_A w cfg stackName s1 = (Inr name, s2)"
    using resources [rule_format, of "calls s1" cfg stackName None]
    by (auto simp: inspector_A_result)
  show ?thesis
  proof (cases "name = []")
    case True
    with stack load insp show ?thesis
      by (simp add: main_A_def destroy_stage_A_returns [OF run])
  next
    case False
    let ?s3 = "log_Printf (''Detected ECS Cluster: '' @ name) s2"
    obtain out where "ecs_ListServices w (calls ?s3) cfg name None = Inr out"
      using services by blast
    then have "fst (deleteEcsServices w cfg name ?s3) = Inr None"
      by (rule deleteEcsServices_ok)
    then obtain s4 where drain: "deleteEcsServices w cfg name ?s3 = (Inr None, s4)"
      by (cases "deleteEcsServices w cfg name ?s3") auto
    obtain out' where "ecs_ListTasks w (calls s4) cfg name DesiredStatusRunning None = Inr out'"
      using tasks by blast
    then have "fst (stopRemainingTasks_A w cfg name s4) = Inr None"
      unfolding stopRemainingTasks_A_def by (simp add: stopRemainingTasks_ok)
    then obtain s5 where stop: "stopRemainingTasks_A w cfg name s4 = (Inr None, s5)"
      by (cases "stopRemainingTasks_A w cfg name s4") auto
    from stack load insp False drain stop show ?thesis
      by (simp add: main_A_def destroy_stage_A_returns [OF run])
  qed
qed

lemma main_B_returns:
  assumes stack: "stackName \<noteq> []" and path: "cdkAppPath \<noteq> []"
    and config: "\<forall>h opts. \<exists>cfg. config_LoadDefaultConfig w h opts = Inr cfg"
    and resources:
      "\<forall>h cfg st tok. \<exists>out name. cfn_ListStackResources w h cfg st tok = Inr out \<and>
         scan_B (StackResourceSummaries out) = Inr name"
    and services: "\<forall>h cfg cl tok. \<exists>out. ecs_ListServices w h cfg cl tok = Inr out"
    and tasks: "\<forall>h cfg cl st tok. \<exists>out. ecs_ListTasks w h cfg cl st tok = Inr out"
    and run: "\<forall>h cmd. cmd_Run w h cmd = None"
  shows "fst (main_B w stackName profile cdkAppPath cdkAppRoot) = Returned"
proof -
  let ?s0 = "\<lparr>calls = [], logged = []\<rparr>"
  obtain cfg s1 where load: "loadAWSConfig_B w profile ?s0 = (Inr cfg, s1)"
    using config by (auto simp: loadAWSConfig_B_def LoadDefaultConfig_def Let_def)
  obtain name s2 where insp: "getEcsClusterNameFromStack_B w cfg stackName s1 = (Inr (Inr name), s2)"
    using resources [rule_format, of "calls s1" cfg stackName None]
    by (auto simp: getEcsClusterNameFromStack_B_def ListStackResources_def)
  show ?thesis
  proof (cases "name = []")
    case True
    with stack path load insp show ?thesis
      by (simp add: main_B_def destroy_stage_B_returns [OF run])
  next
    case False
    obtain out where "ecs_ListServices w (calls s2) cfg name None = Inr out"
      using services by blast
    then have "fst (deleteEcsServices w cfg name s2) = Inr None"
      by (rule deleteEcsServices_ok)
    then obtain s4 where drain: "deleteEcsServices w cfg name s2 = (Inr None, s4)"
      by (cases "deleteEcsServices w cfg name s2") auto
    obtain out' where "ecs_ListTasks w (calls s4) cfg name DesiredStatusRunning None = Inr out'"
      using tasks by blast
    then have "fst (stopRemainingTasks_B w cfg name s4) = Inr None"
      unfolding stopRemainingTasks_B_def by (simp add: stopRemainingTasks_ok)
    then obtain s5 where stop: "stopRemainingTasks_B w cfg name s4 = (Inr None, s5)"
      by (cases "stopRemainingTasks_B w cfg name s4") auto
    from stack path load insp False drain stop show ?thesis
      by (simp add: main_B_def destroy_stage_B_returns [OF run])
  qed
qed

section \<open>The claims\<close>

text \<open>
  Claim C1, as stated, fails on variant A: \<open>runCdkDestroy\<close> of variant A never sets
  \<open>cmd.Dir\<close>. With profile \<open>prod\<close>, directory \<open>/app\<close> and file
  \<open>bin/app.ts\<close> the argument list is the one of the claim, but the working directory
  of the child is left empty (the current directory of the tool), not \<open>/app\<close>.
\<close>

theorem destroy_A_leaves_directory_unset:
  "map Args (commands (calls (snd
     (runCdkDestroy_A idle_world ''stack'' ''prod'' ''us-east-1''
        ''/app'' ''bin/app.ts'' start)))) =
     [[''cdk'', ''destroy'', ''--all'', ''--force'', ''--profile'', ''prod'', ''--app'',
       ''npx ts-node /app/bin/app.ts'']] \<and>
   map Dir (commands (calls (snd
     (runCdkDestroy_A idle_world ''stack'' ''prod'' ''us-east-1''
        ''/app'' ''bin/app.ts'' start)))) = [[]] \<and>
   map Dir (commands (calls (snd
     (runCdkDestroy_A idle_world ''stack'' ''prod'' ''us-east-1''
        ''/app'' ''bin/app.ts'' start)))) \<noteq> [''/app'']"
  by (simp add: runCdkDestroy_A_eq world_defs start_def)

text \<open>
  Claim C1, amended. For every profile and entry path the Destroyer Invoker composes the
  argument list \<open>destroy --all --force [--profile P] --app "npx ts-node <entry-path>"\<close>,
  with the \<open>--profile\<close> pair exactly when the profile is not empty, and returns what
  the run of the child returns. Variant B (app root and entry path) runs the child in
  the app root; with profile \<open>prod\<close>, app root \<open>/app\<close> and entry path
  \<open>/app/bin/app.ts\<close> the arguments are
  \<open>destroy --all --force --profile prod --app "npx ts-node /app/bin/app.ts"\<close> and the
  working directory is \<open>/app\<close>. Variant A (directory and file name) takes
  \<open>filepath.Join(dir, file)\<close> as the entry path and leaves the working directory of the
  child unset.
\<close>

theorem destroy_command_composition:
  "runCdkDestroy_B w profile cdkAppRoot cdkAppPath s =
     (cmd_Run w (calls s)
        \<lparr>Path = ''cdk'',
         Args = [''cdk'', ''destroy'', ''--all'', ''--force''] @
                (if profile = [] then [] else [''--profile'', profile]) @
                [''--app'', ''npx ts-node '' @ cdkAppPath],
         Dir = cdkAppRoot, Stdout = Some os_Stdout, Stderr = Some os_Stderr\<rparr>,
      \<lparr>calls = calls s @
         [CmdRun
            \<lparr>Path = ''cdk'',
             Args = [''cdk'', ''destroy'', ''--all'', ''--force''] @
                    (if profile = [] then [] else [''--profile'', profile]) @
                    [''--app'', ''npx ts-node '' @ cdkAppPath],
             Dir = cdkAppRoot, Stdout = Some os_Stdout, Stderr = Some os_Stderr\<rparr>],
       logged = logged s @
         [''Executing: cdk '' @
          strings_Join
            ([''destroy'', ''--all'', ''--force''] @
             (if profile = [] then [] else [''--profile'', profile]) @
             [''--app'', ''npx ts-node '' @ cdkAppPath]) '' '']\<rparr>) \<and>
   commands (calls (snd (runCdkDestroy_B w ''prod'' ''/app'' ''/app/bin/app.ts'' start))) =
     [\<lparr>Path = ''cdk'',
       Args = [''cdk'', ''destroy'', ''--all'', ''--force'', ''--profile'', ''prod'', ''--app'',
               ''npx ts-node /app/bin/app.ts''],
       Dir = ''/app'', Stdout = Some os_Stdout, Stderr = Some os_Stderr\<rparr>] \<and>
   runCdkDestroy_A w stackName profile region cdkAppDir cdkAppFile s =
     (cmd_Run w (calls s)
        \<lparr>Path = ''cdk'',
         Args = [''cdk'', ''destroy'', ''--all'', ''--force''] @
                (if profile = [] then [] else [''--profile'', profile]) @
                [''--app'', ''npx ts-node '' @ filepath_Join w cdkAppDir cdkAppFile],
         Dir = [], Stdout = Some os_Stdout, Stderr = Some os_Stderr\<rparr>,
      \<lparr>calls = calls s @
         [CmdRun
            \<lparr>Path = ''cdk'',
             Args = [''cdk'', ''destroy'', ''--all'', ''--force''] @
                    (if profile = [] then [] else [''--profile'', profile]) @
                    [''--app'', ''npx ts-node '' @ filepath_Join w cdkAppDir cdkAppFile],
             Dir = [], Stdout = Some os_Stdout, Stderr = Some os_Stderr\<rparr>],
       logged = logged s @
         [''Executing: cdk '' @
          strings_Join
            ([''destroy'', ''--all'', ''--force''] @
             (if profile = [] then [] else [''--profile'', profile]) @
             [''--app'', ''npx ts-node '' @ filepath_Join w cdkAppDir cdkAppFile]) '' '']\<rparr>)"
proof -
  have "commands (calls (snd (runCdkDestroy_B w ''prod'' ''/app'' ''/app/bin/app.ts'' start))) =
     [\<lparr>Path = ''cdk'',
       Args = [''cdk'', ''destroy'', ''--all'', ''--force'', ''--profile'', ''prod'', ''--app'',
               ''npx ts-node /app/bin/app.ts''],
       Dir = ''/app'', Stdout = Some os_Stdout, Stderr = Some os_Stderr\<rparr>]"
    by (simp add: runCdkDestroy_B_eq start_def)
  then show ?thesis
    by (simp only: runCdkDestroy_B_eq runCdkDestroy_A_eq simp_thms)
qed

theorem destroy_command_composition_witness:
  "runCdkDestroy_B idle_world ''prod'' ''/app'' ''/app/bin/app.ts'' start =
     (None,
      \<lparr>calls =
         [CmdRun
            \<lparr>Path = ''cdk'',
             Args = [''cdk'', ''destroy'', ''--all'', ''--force'', ''--profile'', ''prod'', ''--app'',
                     ''npx ts-node /app/bin/app.ts''],
             Dir = ''/app'', Stdout = Some os_Stdout, Stderr = Some os_Stderr\<rparr>],
       logged =
         [''Executing: cdk destroy --all --force --profile prod --app npx ts-node /app/bin/app.ts'']\<rparr>) \<and>
   runCdkDestroy_B idle_world [] ''.'' ''bin/app.ts'' start =
     (None,
      \<lparr>calls =
         [CmdRun
            \<lparr>Path = ''cdk'',
             Args = [''cdk'', ''destroy'', ''--all'', ''--force'', ''--app'', ''npx ts-node bin/app.ts''],
             Dir = ''.'', Stdout = Some os_Stdout, Stderr = Some os_Stderr\<rparr>],
       logged = [''Executing: cdk destroy --all --force --app npx ts-node bin/app.ts'']\<rparr>) \<and>
   runCdkDestroy_A idle_world ''stack'' ''prod'' ''us-east-1''
     ''/app'' ''bin/app.ts'' start =
     (None,
      \<lparr>calls =
         [CmdRun
            \<lparr>Path = ''cdk'',
             Args = [''cdk'', ''destroy'', ''--all'', ''--force'', ''--profile'', ''prod'', ''--app'',
                     ''npx ts-node /app/bin/app.ts''],
             Dir = [], Stdout = Some os_Stdout, Stderr = Some os_Stderr\<rparr>],
       logged =
         [''Executing: cdk destroy --all --force --profile prod --app npx ts-node /app/bin/app.ts'']\<rparr>)"
  using
    destroy_command_composition
      [of idle_world "''prod''" "''/app''" "''/app/bin/app.ts''" start
          "''stack''" "''us-east-1''" "''/app''" "''bin/app.ts''"]
    destroy_command_composition
      [of idle_world "[]" "''.''" "''bin/app.ts''" start
          "''stack''" "''us-east-1''" "''/app''" "''bin/app.ts''"]
  by (simp add: world_defs start_def)

text \<open>
  Claim C2. The Service Drainer takes the services in the order of the list: its update
  requests are those of the listed services, named by their short names, in list order,
  whatever failed on the way. For one service (a step of the loop, from any state
  \<open>t\<close>): when the update to desired count zero fails, the only request for the
  service is the update (no stability wait, no deletion), the failure is logged, and the
  loop goes on with the next service; when the update succeeds, the wait and the
  deletion follow, the deletion also when the wait failed (that failure is only
  logged). For a listing \<open>[A, B]\<close> where updating A succeeds and updating B fails,
  the requests of the drainer are the listing, the update, the wait and the deletion of
  A, and the update of B, and the last line logged is B's failure.
\<close>

theorem drainer_order_and_skips:
  "(ecs_ListServices w (calls s) cfg cl None = Inr out \<longrightarrow>
      (\<exists>names. map arnToName (ServiceArns out) = map Inr names \<and>
         filter is_UpdateService (calls (snd (deleteEcsServices w cfg cl s))) =
           filter is_UpdateService (calls s) @ map (\<lambda>n. UpdateServiceInput cl n 0) names)) \<and>
   (arnToName arn1 = Inr name1 \<and> ecs_UpdateService w (calls t) cfg cl name1 0 = Some e \<longrightarrow>
      deleteEcsServices_loop w cfg cl (arn1 # rest) t =
      deleteEcsServices_loop w cfg cl rest
        \<lparr>calls = calls t @ [UpdateServiceInput cl name1 0],
         logged = logged t @
           [''[Service: '' @ name1 @ ''] Setting desired count to 0...'',
            ''Failed to update service('' @ name1 @ '') desiredCount=0: '' @ Error e]\<rparr>) \<and>
   (arnToName arn2 = Inr name2 \<and> ecs_UpdateService w (calls t) cfg cl name2 0 = None \<longrightarrow>
      deleteEcsServices_loop w cfg cl (arn2 # rest) t =
      deleteEcsServices_loop w cfg cl rest
        \<lparr>calls = calls t @
           [UpdateServiceInput cl name2 0,
            ServicesStableWait cl [name2] (10 * time_Minute),
            DeleteServiceInput cl name2 True],
         logged = logged t @
           [''[Service: '' @ name2 @ ''] Setting desired count to 0...''] @
           (case ecs_ServicesStableWaiter_Wait w (calls t @ [UpdateServiceInput cl name2 0]) cfg cl
                   [name2] (10 * time_Minute) of
              None \<Rightarrow> []
            | Some err \<Rightarrow>
                [''waitForServiceStable failed for service('' @ name2 @ ''): '' @ Error err]) @
           [''[Service: '' @ name2 @ ''] Deleting...''] @
           (case ecs_DeleteService w
                   (calls t @ [UpdateServiceInput cl name2 0,
                               ServicesStableWait cl [name2] (10 * time_Minute)])
                   cfg cl name2 True of
              None \<Rightarrow> []
            | Some err \<Rightarrow> [''Failed to delete service('' @ name2 @ ''): '' @ Error err])\<rparr>) \<and>
   (ecs_ListServices w (calls s) cfg cl None = Inr out \<and> ServiceArns out = [A, B] \<and>
    arnToName A = Inr a \<and> arnToName B = Inr b \<and>
    ecs_UpdateService w (calls s @ [ListServicesInput cl None]) cfg cl a 0 = None \<and>
    ecs_UpdateService w
      (calls s @
         [ListServicesInput cl None, UpdateServiceInput cl a 0,
          ServicesStableWait cl [a] (10 * time_Minute), DeleteServiceInput cl a True])
      cfg cl b 0 = Some e' \<longrightarrow>
      fst (deleteEcsServices w cfg cl s) = Inr None \<and>
      calls (snd (deleteEcsServices w cfg cl s)) =
        calls s @
          [ListServicesInput cl None, UpdateServiceInput cl a 0,
           ServicesStableWait cl [a] (10 * time_Minute), DeleteServiceInput cl a True,
           UpdateServiceInput cl b 0] \<and>
      last (logged (snd (deleteEcsServices w cfg cl s))) =
        ''Failed to update service('' @ b @ '') desiredCount=0: '' @ Error e')"
proof -
  have order:
    "\<exists>names. map arnToName (ServiceArns out) = map Inr names \<and>
       filter is_UpdateService (calls (snd (deleteEcsServices w cfg cl s))) =
         filter is_UpdateService (calls s) @ map (\<lambda>n. UpdateServiceInput cl n 0) names"
    if "ecs_ListServices w (calls s) cfg cl None = Inr out"
  proof (intro exI conjI)
    show "map arnToName (ServiceArns out) =
          map Inr (map (\<lambda>arn. last (strings_Split arn CHR ''/'')) (ServiceArns out))"
      by (simp add: arnToName_last)
    show "filter is_UpdateService (calls (snd (deleteEcsServices w cfg cl s))) =
          filter is_UpdateService (calls s) @
            map (\<lambda>n. UpdateServiceInput cl n 0)
              (map (\<lambda>arn. last (strings_Split arn CHR ''/'')) (ServiceArns out))"
      by (simp add: deleteEcsServices_updates [OF that] comp_def)
  qed
  have ab:
    "fst (deleteEcsServices w cfg cl s) = Inr None \<and>
     calls (snd (deleteEcsServices w cfg cl s)) =
       calls s @
         [ListServicesInput cl None, UpdateServiceInput cl a 0,
          ServicesStableWait cl [a] (10 * time_Minute), DeleteServiceInput cl a True,
          UpdateServiceInput cl b 0] \<and>
     last (logged (snd (deleteEcsServices w cfg cl s))) =
       ''Failed to update service('' @ b @ '') desiredCount=0: '' @ Error e'"
    if list: "ecs_ListServices w (calls s) cfg cl None = Inr out" and arns: "ServiceArns out = [A, B]"
      and A: "arnToName A = Inr a" and B: "arnToName B = Inr b"
      and ua: "ecs_UpdateService w (calls s @ [ListServicesInput cl None]) cfg cl a 0 = None"
      and ub: "ecs_UpdateService w
        (calls s @
           [ListServicesInput cl None, UpdateServiceInput cl a 0,
            ServicesStableWait cl [a] (10 * time_Minute), DeleteServiceInput cl a True])
        cfg cl b 0 = Some e'"
  proof -
    let ?s1 = "issue (ListServicesInput cl None) s"
    have ua': "ecs_UpdateService w (calls ?s1) cfg cl a 0 = None"
      using ua by (simp add: issue_def)
    have whole: "deleteEcsServices w cfg cl s =
                 (Inr None, snd (deleteEcsServices_loop w cfg cl [A, B] ?s1))"
      using deleteEcsServices_nonempty [OF list] arns by simp
    show ?thesis
      unfolding whole delete_step_ok [OF A ua']
      by (subst delete_step_fail [OF B], simp add: ub issue_def)+ (simp add: issue_def)
  qed
  from order delete_step_fail [of arn1 name1 w t cfg cl e rest]
    delete_step_ok [of arn2 name2 w t cfg cl rest] ab
  show ?thesis by blast
qed

theorem drainer_order_and_skips_witness:
  "ecs_ListServices busy_world (calls start) ()
     ''cluster-x'' None =
     Inr \<lparr>ServiceArns = [service_A, service_B], NextToken_services = Some ''more''\<rparr> \<and>
   arnToName service_A = Inr ''A'' \<and>
   arnToName service_B = Inr ''B'' \<and>
   ecs_UpdateService busy_world
     (calls start @ [ListServicesInput ''cluster-x'' None]) () ''cluster-x'' ''A'' 0 = None \<and>
   ecs_UpdateService busy_world
     (calls start @
        [ListServicesInput ''cluster-x'' None, UpdateServiceInput ''cluster-x'' ''A'' 0,
         ServicesStableWait ''cluster-x'' [''A''] (10 * time_Minute),
         DeleteServiceInput ''cluster-x'' ''A'' True])
     () ''cluster-x'' ''B'' 0 = Some (ErrorString ''update refused'') \<and>
   ecs_ServicesStableWaiter_Wait busy_world
     (calls start @ [ListServicesInput ''cluster-x'' None, UpdateServiceInput ''cluster-x'' ''A'' 0])
     () ''cluster-x'' [''A''] (10 * time_Minute) = Some (ErrorString ''exceeded max wait time'') \<and>
   deleteEcsServices busy_world () ''cluster-x''
     start =
     (Inr None,
      \<lparr>calls =
         [ListServicesInput ''cluster-x'' None,
          UpdateServiceInput ''cluster-x'' ''A'' 0,
          ServicesStableWait ''cluster-x'' [''A''] 600000000000,
          DeleteServiceInput ''cluster-x'' ''A'' True,
          UpdateServiceInput ''cluster-x'' ''B'' 0],
       logged =
         [''[Service: A] Setting desired count to 0...'',
          ''waitForServiceStable failed for service(A): exceeded max wait time'',
          ''[Service: A] Deleting...'',
          ''[Service: B] Setting desired count to 0...'',
          ''Failed to update service(B) desiredCount=0: update refused'']\<rparr>)"
proof -
  let ?w = busy_world
  let ?s1 = "\<lparr>calls = [ListServicesInput ''cluster-x'' None], logged = []\<rparr>"
  let ?s2 = "\<lparr>calls =
               [ListServicesInput ''cluster-x'' None, UpdateServiceInput ''cluster-x'' ''A'' 0,
                ServicesStableWait ''cluster-x'' [''A''] (10 * time_Minute),
                DeleteServiceInput ''cluster-x'' ''A'' True],
             logged =
               [''[Service: A] Setting desired count to 0...'',
                ''waitForServiceStable failed for service(A): exceeded max wait time'',
                ''[Service: A] Deleting...'']\<rparr>"
  have list: "ecs_ListServices ?w (calls start) () ''cluster-x'' None =
              Inr \<lparr>ServiceArns = [service_A, service_B], NextToken_services = Some ''more''\<rparr>"
    by (simp add: world_defs)
  have A: "arnToName service_A = Inr ''A''" and B: "arnToName service_B = Inr ''B''"
    by (simp_all add: arnToName_last service_A_def service_B_def)
  have ua: "ecs_UpdateService ?w (calls ?s1) () ''cluster-x'' ''A'' 0 = None"
    by (simp add: world_defs)
  have ub: "ecs_UpdateService ?w (calls ?s2) () ''cluster-x'' ''B'' 0 = Some (ErrorString ''update refused'')"
    by (simp add: world_defs)
  have wa: "ecs_ServicesStableWaiter_Wait ?w
              (calls start @ [ListServicesInput ''cluster-x'' None, UpdateServiceInput ''cluster-x'' ''A'' 0])
              () ''cluster-x'' [''A''] (10 * time_Minute) = Some (ErrorString ''exceeded max wait time'')"
    by (simp add: world_defs)
  note T = drainer_order_and_skips
      [where w = ?w and s = start and cfg = "()" and cl = "''cluster-x''"
         and out = "\<lparr>ServiceArns = [service_A, service_B], NextToken_services = Some ''more''\<rparr>"
         and A = service_A and a = "''A''" and B = service_B and b = "''B''"
         and e' = "ErrorString ''update refused''"]
  have step1: "deleteEcsServices_loop ?w () ''cluster-x'' [service_A, service_B] ?s1 =
               deleteEcsServices_loop ?w () ''cluster-x'' [service_B] ?s2"
    using T [where t = ?s1 and ?arn2.0 = service_A and ?name2.0 = "''A''" and rest = "[service_B]",
             THEN conjunct2, THEN conjunct2, THEN conjunct1] A ua
    by (simp add: world_defs)
  have step2: "deleteEcsServices_loop ?w () ''cluster-x'' [service_B] ?s2 =
               (Inr (),
                \<lparr>calls = calls ?s2 @ [UpdateServiceInput ''cluster-x'' ''B'' 0],
                 logged = logged ?s2 @
                   [''[Service: B] Setting desired count to 0...'',
                    ''Failed to update service(B) desiredCount=0: update refused'']\<rparr>)"
    using T [where t = ?s2 and ?arn1.0 = service_B and ?name1.0 = "''B''" and rest = "[]"
               and e = "ErrorString ''update refused''",
             THEN conjunct2, THEN conjunct1] B ub
    by simp
  have whole: "deleteEcsServices ?w () ''cluster-x'' start =
               (Inr None, snd (deleteEcsServices_loop ?w () ''cluster-x'' [service_A, service_B] ?s1))"
    using deleteEcsServices_nonempty [OF list] by (simp add: issue_def start_def)
  show ?thesis
    unfolding whole step1 step2
    using list A B ua ub wa
    by (simp add: start_def time_Minute_def)
qed

text \<open>
  Claim C3. The Stack Inspector returns the physical identifier of the first entry, in
  list order, whose resource type is \<open>AWS::ECS::Cluster\<close>, the empty string
  without error when no entry matches, and the listing's error when the listing fails.
  Variant A does so on every list (\<open>inspector_A_result\<close>; a nil identifier reads as
  the empty string), and variant B on every list whose first entry of the cluster type
  has an identifier (\<open>inspector_B_result\<close>). Where that entry has none, variant B
  dereferences the nil pointer: the Stack Inspector does not return, and the run ends
  in a panic right after the listing, where variant A returns the empty string.
\<close>

theorem inspector_B_panics_without_identifier:
  "fst (getEcsClusterNameFromStack_B unnamed_cluster_world () ''stack'' start) =
     Inl NilPointerDereference \<and>
   main_B unnamed_cluster_world ''stack'' [] ''/app/bin/app.ts'' ''/app'' =
     (Panicked NilPointerDereference,
      \<lparr>calls = [LoadDefaultConfigOpts [], ListStackResourcesInput ''stack'' None], logged = []\<rparr>) \<and>
   fst (getEcsClusterNameFromStack_A unnamed_cluster_world () ''stack'' start) = Inr []"
  by (simp add: main_B_def loadAWSConfig_B_def LoadDefaultConfig_def inspector_B_result
      inspector_A_result world_defs bucket_resource_def cluster_resource_def is_cluster_def
      issue_def start_def aws_ToString_def)

text \<open>
  Claim C4. Whenever the Stack Inspector returns an empty cluster name, the run makes no
  request of the Service Drainer or the Task Reaper and goes on to run the destroy
  command: the calls of the whole run are the loading of the configuration, the listing
  of the stack's resources and the run of the \<open>cdk\<close> child process. This holds in
  both variants (in variant B the flag \<open>--cdk-app-path\<close> has to be given as well).
\<close>

theorem no_cluster_skips_to_destroy:
  "(stackName \<noteq> [] \<and>
    config_LoadDefaultConfig w []
      (WithRegion region # (if profile = [] then [] else [WithSharedConfigProfile profile])) = Inr cfg \<and>
    fst (getEcsClusterNameFromStack_A w cfg stackName
           \<lparr>calls = [LoadDefaultConfigOpts
                       (WithRegion region # (if profile = [] then [] else [WithSharedConfigProfile profile]))],
            logged = []\<rparr>) = Inr [] \<longrightarrow>
      calls (snd (main_A w stackName profile region cdkAppDir cdkAppFile)) =
        [LoadDefaultConfigOpts
           (WithRegion region # (if profile = [] then [] else [WithSharedConfigProfile profile])),
         ListStackResourcesInput stackName None,
         CmdRun
           \<lparr>Path = ''cdk'',
            Args = [''cdk'', ''destroy'', ''--all'', ''--force''] @
                   (if profile = [] then [] else [''--profile'', profile]) @
                   [''--app'', ''npx ts-node '' @ filepath_Join w cdkAppDir cdkAppFile],
            Dir = [], Stdout = Some os_Stdout, Stderr = Some os_Stderr\<rparr>] \<and>
      filter is_drain_or_stop (calls (snd (main_A w stackName profile region cdkAppDir cdkAppFile))) = []) \<and>
   (stackName \<noteq> [] \<and> cdkAppPath \<noteq> [] \<and>
    config_LoadDefaultConfig w []
      (if profile = [] then [] else [WithSharedConfigProfile profile]) = Inr cfg \<and>
    fst (getEcsClusterNameFromStack_B w cfg stackName
           \<lparr>calls = [LoadDefaultConfigOpts
                       (if profile = [] then [] else [WithSharedConfigProfile profile])],
            logged = []\<rparr>) = Inr (Inr []) \<longrightarrow>
      calls (snd (main_B w stackName profile cdkAppPath cdkAppRoot)) =
        [LoadDefaultConfigOpts (if profile = [] then [] else [WithSharedConfigProfile profile]),
         ListStackResourcesInput stackName None,
         CmdRun
           \<lparr>Path = ''cdk'',
            Args = [''cdk'', ''destroy'', ''--all'', ''--force''] @
                   (if profile = [] then [] else [''--profile'', profile]) @
                   [''--app'', ''npx ts-node '' @ cdkAppPath],
            Dir = cdkAppRoot, Stdout = Some os_Stdout, Stderr = Some os_Stderr\<rparr>] \<and>
      filter is_drain_or_stop (calls (snd (main_B w stackName profile cdkAppPath cdkAppRoot))) = [])"
proof -
  let ?optsA = "WithRegion region # (if profile = [] then [] else [WithSharedConfigProfile profile])"
  let ?optsB = "if profile = [] then [] else [WithSharedConfigProfile profile]"
  let ?sA = "\<lparr>calls = [LoadDefaultConfigOpts ?optsA], logged = []\<rparr>"
  let ?sB = "\<lparr>calls = [LoadDefaultConfigOpts ?optsB], logged = []\<rparr>"
  have loadA: "loadAWSConfig_A w profile region \<lparr>calls = [], logged = []\<rparr> =
                 (config_LoadDefaultConfig w [] ?optsA, ?sA)"
    by (simp add: loadAWSConfig_A_def LoadDefaultConfig_def issue_def Let_def)
  have loadB: "loadAWSConfig_B w profile \<lparr>calls = [], logged = []\<rparr> =
                 (config_LoadDefaultConfig w [] ?optsB, ?sB)"
    by (simp add: loadAWSConfig_B_def LoadDefaultConfig_def issue_def Let_def)
  have A: "calls (snd (main_A w stackName profile region cdkAppDir cdkAppFile)) =
             [LoadDefaultConfigOpts ?optsA, ListStackResourcesInput stackName None,
              CmdRun
                \<lparr>Path = ''cdk'',
                 Args = [''cdk'', ''destroy'', ''--all'', ''--force''] @
                        (if profile = [] then [] else [''--profile'', profile]) @
                        [''--app'', ''npx ts-node '' @ filepath_Join w cdkAppDir cdkAppFile],
                 Dir = [], Stdout = Some os_Stdout, Stderr = Some os_Stderr\<rparr>]"
    if ne: "stackName \<noteq> []" and cfg: "config_LoadDefaultConfig w [] ?optsA = Inr cfg"
      and name: "fst (getEcsClusterNameFromStack_A w cfg stackName ?sA) = Inr []"
  proof -
    obtain s2 where g: "getEcsClusterNameFromStack_A w cfg stackName ?sA = (Inr [], s2)"
      using name by (cases "getEcsClusterNameFromStack_A w cfg stackName ?sA") auto
    have "calls s2 = calls ?sA @ [ListStackResourcesInput stackName None]"
      using getEcsClusterNameFromStack_A_calls [of w cfg stackName ?sA] g by simp
    then show ?thesis
      using ne cfg g
      by (simp add: main_A_def loadA destroy_stage_A_calls log_Printf_def del: snd_conv)
  qed
  have B: "calls (snd (main_B w stackName profile cdkAppPath cdkAppRoot)) =
             [LoadDefaultConfigOpts ?optsB, ListStackResourcesInput stackName None,
              CmdRun
                \<lparr>Path = ''cdk'',
                 Args = [''cdk'', ''destroy'', ''--all'', ''--force''] @
                        (if profile = [] then [] else [''--profile'', profile]) @
                        [''--app'', ''npx ts-node '' @ cdkAppPath],
                 Dir = cdkAppRoot, Stdout = Some os_Stdout, Stderr = Some os_Stderr\<rparr>]"
    if ne: "stackName \<noteq> []" and pa: "cdkAppPath \<noteq> []"
      and cfg: "config_LoadDefaultConfig w [] ?optsB = Inr cfg"
      and name: "fst (getEcsClusterNameFromStack_B w cfg stackName ?sB) = Inr (Inr [])"
  proof -
    obtain s2 where g: "getEcsClusterNameFromStack_B w cfg stackName ?sB = (Inr (Inr []), s2)"
      using name by (cases "getEcsClusterNameFromStack_B w cfg stackName ?sB") auto
    have "calls s2 = calls ?sB @ [ListStackResourcesInput stackName None]"
      using getEcsClusterNameFromStack_B_calls [of w cfg stackName ?sB] g by simp
    then show ?thesis
      using ne pa cfg g
      by (simp add: main_B_def loadB destroy_stage_B_calls log_Printf_def del: snd_conv)
  qed
  show ?thesis
  proof (intro conjI impI)
    assume h: "stackName \<noteq> [] \<and> config_LoadDefaultConfig w [] ?optsA = Inr cfg \<and>
               fst (getEcsClusterNameFromStack_A w cfg stackName ?sA) = Inr []"
    then show "calls (snd (main_A w stackName profile region cdkAppDir cdkAppFile)) =
             [LoadDefaultConfigOpts ?optsA, ListStackResourcesInput stackName None,
              CmdRun
                \<lparr>Path = ''cdk'',
                 Args = [''cdk'', ''destroy'', ''--all'', ''--force''] @
                        (if profile = [] then [] else [''--profile'', profile]) @
                        [''--app'', ''npx ts-node '' @ filepath_Join w cdkAppDir cdkAppFile],
                 Dir = [], Stdout = Some os_Stdout, Stderr = Some os_Stderr\<rparr>]"
      using A by blast
    from h show "filter is_drain_or_stop (calls (snd (main_A w stackName profile region cdkAppDir cdkAppFile))) = []"
      using A by simp
  next
    assume h: "stackName \<noteq> [] \<and> cdkAppPath \<noteq> [] \<and>
               config_LoadDefaultConfig w [] ?optsB = Inr cfg \<and>
               fst (getEcsClusterNameFromStack_B w cfg stackName ?sB) = Inr (Inr [])"
    then show "calls (snd (main_B w stackName profile cdkAppPath cdkAppRoot)) =
             [LoadDefaultConfigOpts ?optsB, ListStackResourcesInput stackName None,
              CmdRun
                \<lparr>Path = ''cdk'',
                 Args = [''cdk'', ''destroy'', ''--all'', ''--force''] @
                        (if profile = [] then [] else [''--profile'', profile]) @
                        [''--app'', ''npx ts-node '' @ cdkAppPath],
                 Dir = cdkAppRoot, Stdout = Some os_Stdout, Stderr = Some os_Stderr\<rparr>]"
      using B by blast
    from h show "filter is_drain_or_stop (calls (snd (main_B w stackName profile cdkAppPath cdkAppRoot))) = []"
      using B by simp
  qed
qed

theorem no_cluster_skips_to_destroy_witness:
  "''stack'' \<noteq> [] \<and>
   config_LoadDefaultConfig no_cluster_world []
     (WithRegion ''us-east-1'' # (if ''prod'' = [] then [] else [WithSharedConfigProfile ''prod''])) = Inr () \<and>
   fst (getEcsClusterNameFromStack_A
          no_cluster_world () ''stack''
          \<lparr>calls = [LoadDefaultConfigOpts [WithRegion ''us-east-1'', WithSharedConfigProfile ''prod'']],
           logged = []\<rparr>) = Inr [] \<and>
   calls (snd (main_A no_cluster_world
                 ''stack'' ''prod'' ''us-east-1'' ''/app'' ''bin/app.ts'')) =
     [LoadDefaultConfigOpts [WithRegion ''us-east-1'', WithSharedConfigProfile ''prod''],
      ListStackResourcesInput ''stack'' None,
      CmdRun
        \<lparr>Path = ''cdk'',
         Args = [''cdk'', ''destroy'', ''--all'', ''--force'', ''--profile'', ''prod'', ''--app'',
                 ''npx ts-node /app/bin/app.ts''],
         Dir = [], Stdout = Some os_Stdout, Stderr = Some os_Stderr\<rparr>] \<and>
   ''/app/bin/app.ts'' \<noteq> [] \<and>
   config_LoadDefaultConfig no_cluster_world []
     (if ''prod'' = [] then [] else [WithSharedConfigProfile ''prod'']) = Inr () \<and>
   fst (getEcsClusterNameFromStack_B
          no_cluster_world () ''stack''
          \<lparr>calls = [LoadDefaultConfigOpts [WithSharedConfigProfile ''prod'']],
           logged = []\<rparr>) = Inr (Inr []) \<and>
   calls (snd (main_B no_cluster_world
                 ''stack'' ''prod'' ''/app/bin/app.ts'' ''/app'')) =
     [LoadDefaultConfigOpts [WithSharedConfigProfile ''prod''],
      ListStackResourcesInput ''stack'' None,
      CmdRun
        \<lparr>Path = ''cdk'',
         Args = [''cdk'', ''destroy'', ''--all'', ''--force'', ''--profile'', ''prod'', ''--app'',
                 ''npx ts-node /app/bin/app.ts''],
         Dir = ''/app'', Stdout = Some os_Stdout, Stderr = Some os_Stderr\<rparr>]"
proof -
  let ?w = no_cluster_world
  have h1: "config_LoadDefaultConfig ?w []
      (WithRegion ''us-east-1'' # (if ''prod'' = [] then [] else [WithSharedConfigProfile ''prod''])) = Inr ()"
    by (simp add: world_defs)
  have h2: "fst (getEcsClusterNameFromStack_A ?w () ''stack''
          \<lparr>calls = [LoadDefaultConfigOpts
                      (WithRegion ''us-east-1'' # (if ''prod'' = [] then [] else [WithSharedConfigProfile ''prod'']))],
           logged = []\<rparr>) = Inr []"
    by (simp add: world_defs getEcsClusterNameFromStack_A_def ListStackResources_def
        bucket_resource_def is_cluster_def)
  have h3: "config_LoadDefaultConfig ?w []
      (if ''prod'' = [] then [] else [WithSharedConfigProfile ''prod'']) = Inr ()"
    by (simp add: world_defs)
  have h4: "fst (getEcsClusterNameFromStack_B ?w () ''stack''
          \<lparr>calls = [LoadDefaultConfigOpts
                      (if ''prod'' = [] then [] else [WithSharedConfigProfile ''prod''])],
           logged = []\<rparr>) = Inr (Inr [])"
    by (simp add: world_defs getEcsClusterNameFromStack_B_def ListStackResources_def
        bucket_resource_def is_cluster_def)
  have h5: "filepath_Join ?w ''/app'' ''bin/app.ts'' = ''/app/bin/app.ts''"
    by (simp add: world_defs)
  show ?thesis
    using h1 h2 h3 h4 h5
      no_cluster_skips_to_destroy
        [where stackName = "''stack''" and w = ?w and region = "''us-east-1''" and profile = "''prod''"
           and cfg = "()" and cdkAppDir = "''/app''" and cdkAppFile = "''bin/app.ts''"
           and cdkAppPath = "''/app/bin/app.ts''" and cdkAppRoot = "''/app''"]
    by simp
qed

text \<open>
  Claim C5. The Service Drainer returns a failure exactly when its listing request
  fails (the failure wraps the listing's error). When the listing succeeds it returns
  success in every world, so whatever the updates, waits and deletions of the services
  answer; with an empty list it only logs that no service was found. For the whole run:
  in a world where the configuration loads, the three listings succeed and the child
  process succeeds, both variants of \<open>main\<close> return (exit status 0), whatever
  the requests for single services and tasks answer.
\<close>

theorem drainer_fails_only_on_listing:
  "(ecs_ListServices w (calls s) cfg cl None = Inl err \<longrightarrow>
      deleteEcsServices w cfg cl s =
      (Inr (Some (fmt_Errorf ''ListServices error: '' err)), issue (ListServicesInput cl None) s)) \<and>
   (ecs_ListServices w (calls s) cfg cl None = Inr out \<longrightarrow>
      fst (deleteEcsServices w cfg cl s) = Inr None) \<and>
   (ecs_ListServices w (calls s) cfg cl None = Inr out \<and> ServiceArns out = [] \<longrightarrow>
      deleteEcsServices w cfg cl s =
      (Inr None,
       log_Printf (''No ECS services found in cluster: '' @ cl) (issue (ListServicesInput cl None) s))) \<and>
   ((\<exists>e. fst (deleteEcsServices w cfg cl s) = Inr (Some e)) =
    (\<exists>e. ecs_ListServices w (calls s) cfg cl None = Inl e)) \<and>
   (stackName \<noteq> [] \<and> cdkAppPath \<noteq> [] \<and>
    (\<forall>h opts. \<exists>c. config_LoadDefaultConfig w h opts = Inr c) \<and>
    (\<forall>h c stack tok. \<exists>page name.
        cfn_ListStackResources w h c stack tok = Inr page \<and>
        scan_B (StackResourceSummaries page) = Inr name) \<and>
    (\<forall>h c cluster tok. \<exists>page. ecs_ListServices w h c cluster tok = Inr page) \<and>
    (\<forall>h c cluster status tok. \<exists>page. ecs_ListTasks w h c cluster status tok = Inr page) \<and>
    (\<forall>h cmd. cmd_Run w h cmd = None) \<longrightarrow>
      fst (main_A w stackName profile region cdkAppDir cdkAppFile) = Returned \<and>
      fst (main_B w stackName profile cdkAppPath cdkAppRoot) = Returned)"
proof -
  have run:
    "fst (main_A w stackName profile region cdkAppDir cdkAppFile) = Returned \<and>
     fst (main_B w stackName profile cdkAppPath cdkAppRoot) = Returned"
    if "stackName \<noteq> []" "cdkAppPath \<noteq> []"
      "\<forall>h opts. \<exists>c. config_LoadDefaultConfig w h opts = Inr c"
      "\<forall>h c stack tok. \<exists>page name.
          cfn_ListStackResources w h c stack tok = Inr page \<and>
          scan_B (StackResourceSummaries page) = Inr name"
      "\<forall>h c cluster tok. \<exists>page. ecs_ListServices w h c cluster tok = Inr page"
      "\<forall>h c cluster status tok. \<exists>page. ecs_ListTasks w h c cluster status tok = Inr page"
      "\<forall>h cmd. cmd_Run w h cmd = None"
  proof
    from that(4) have "\<forall>h c stack tok. \<exists>page. cfn_ListStackResources w h c stack tok = Inr page"
      by blast
    with that show "fst (main_A w stackName profile region cdkAppDir cdkAppFile) = Returned"
      by (intro main_A_returns)
    from that show "fst (main_B w stackName profile cdkAppPath cdkAppRoot) = Returned"
      by (intro main_B_returns)
  qed
  have iff: "(\<exists>e. fst (deleteEcsServices w cfg cl s) = Inr (Some e)) =
             (\<exists>e. ecs_ListServices w (calls s) cfg cl None = Inl e)"
  proof (cases "ecs_ListServices w (calls s) cfg cl None")
    case (Inl e)
    then show ?thesis by (simp add: deleteEcsServices_fail)
  next
    case (Inr out')
    then show ?thesis by (simp add: deleteEcsServices_ok)
  qed
  show ?thesis
    using deleteEcsServices_fail [of w s cfg cl err] deleteEcsServices_ok [of w s cfg cl out]
      deleteEcsServices_empty [of w s cfg cl out] iff run
    by blast
qed

theorem drainer_fails_only_on_listing_witness:
  "ecs_ListServices denied_world
     (calls start) () ''cluster-x'' None = Inl (ErrorString ''AccessDenied'') \<and>
   deleteEcsServices denied_world ()
     ''cluster-x'' start =
     (Inr (Some (WrapError ''ListServices error: '' (ErrorString ''AccessDenied''))),
      \<lparr>calls = [ListServicesInput ''cluster-x'' None], logged = []\<rparr>) \<and>
   ecs_ListServices busy_world
     (calls start) () ''cluster-x'' None =
     Inr \<lparr>ServiceArns = [service_A, service_B], NextToken_services = Some ''more''\<rparr> \<and>
   fst (deleteEcsServices busy_world ()
          ''cluster-x'' start) = Inr None \<and>
   ecs_ListServices idle_world
     (calls start) () ''cluster-x'' None =
     Inr \<lparr>ServiceArns = [], NextToken_services = Some ''more''\<rparr> \<and>
   ServiceArns \<lparr>ServiceArns = [], NextToken_services = Some ''more''\<rparr> = [] \<and>
   deleteEcsServices idle_world () ''cluster-x'' start =
     (Inr None,
      \<lparr>calls = [ListServicesInput ''cluster-x'' None],
       logged = [''No ECS services found in cluster: cluster-x'']\<rparr>) \<and>
   ''stack'' \<noteq> [] \<and> ''/app/bin/app.ts'' \<noteq> [] \<and>
   (\<forall>h opts. \<exists>c. config_LoadDefaultConfig busy_world h opts = Inr c) \<and>
   (\<forall>h c stack tok. \<exists>page name.
       cfn_ListStackResources busy_world h c stack tok = Inr page \<and>
       scan_B (StackResourceSummaries page) = Inr name) \<and>
   (\<forall>h c cluster tok. \<exists>page. ecs_ListServices busy_world h c cluster tok = Inr page) \<and>
   (\<forall>h c cluster status tok. \<exists>page. ecs_ListTasks busy_world h c cluster status tok = Inr page) \<and>
   (\<forall>h cmd. cmd_Run busy_world h cmd = None) \<and>
   (\<forall>h. ecs_UpdateService busy_world h () ''cluster-x'' ''B'' 0 = Some (ErrorString ''update refused'')) \<and>
   (\<forall>h. ecs_StopTask busy_world h () ''cluster-x'' task_1 ''Cleanup before destroy'' =
          Some (ErrorString ''stop refused'')) \<and>
   fst (main_A busy_world ''stack'' ''prod'' ''us-east-1'' ''/app'' ''bin/app.ts'') = Returned \<and>
   fst (main_B busy_world ''stack'' ''prod'' ''/app/bin/app.ts'' ''/app'') = Returned"
proof -
  let ?w = busy_world
  have h: "''stack'' \<noteq> [] \<and> ''/app/bin/app.ts'' \<noteq> [] \<and>
    (\<forall>h opts. \<exists>c. config_LoadDefaultConfig ?w h opts = Inr c) \<and>
    (\<forall>h c stack tok. \<exists>page name.
        cfn_ListStackResources ?w h c stack tok = Inr page \<and>
        scan_B (StackResourceSummaries page) = Inr name) \<and>
    (\<forall>h c cluster tok. \<exists>page. ecs_ListServices ?w h c cluster tok = Inr page) \<and>
    (\<forall>h c cluster status tok. \<exists>page. ecs_ListTasks ?w h c cluster status tok = Inr page) \<and>
    (\<forall>h cmd. cmd_Run ?w h cmd = None)"
    by (simp add: world_defs bucket_resource_def cluster_resource_def is_cluster_def)
  have items:
    "(\<forall>h. ecs_UpdateService ?w h () ''cluster-x'' ''B'' 0 = Some (ErrorString ''update refused'')) \<and>
     (\<forall>h. ecs_StopTask ?w h () ''cluster-x'' task_1 ''Cleanup before destroy'' =
            Some (ErrorString ''stop refused''))"
    by (simp add: world_defs)
  note run = drainer_fails_only_on_listing
      [where w = ?w and stackName = "''stack''" and profile = "''prod''" and region = "''us-east-1''"
         and cdkAppDir = "''/app''" and cdkAppFile = "''bin/app.ts''"
         and cdkAppPath = "''/app/bin/app.ts''" and cdkAppRoot = "''/app''",
       THEN conjunct2, THEN conjunct2, THEN conjunct2, THEN conjunct2, THEN mp, OF h]
  have stages: "ecs_ListServices denied_world
         (calls start) () ''cluster-x'' None = Inl (ErrorString ''AccessDenied'') \<and>
       deleteEcsServices denied_world ()
         ''cluster-x'' start =
         (Inr (Some (WrapError ''ListServices error: '' (ErrorString ''AccessDenied''))),
          \<lparr>calls = [ListServicesInput ''cluster-x'' None], logged = []\<rparr>) \<and>
       ecs_ListServices busy_world
         (calls start) () ''cluster-x'' None =
         Inr \<lparr>ServiceArns = [service_A, service_B], NextToken_services = Some ''more''\<rparr> \<and>
       fst (deleteEcsServices busy_world ()
              ''cluster-x'' start) = Inr None \<and>
       ecs_ListServices idle_world
         (calls start) () ''cluster-x'' None =
         Inr \<lparr>ServiceArns = [], NextToken_services = Some ''more''\<rparr> \<and>
       ServiceArns \<lparr>ServiceArns = [], NextToken_services = Some ''more''\<rparr> = [] \<and>
       deleteEcsServices idle_world () ''cluster-x'' start =
         (Inr None,
          \<lparr>calls = [ListServicesInput ''cluster-x'' None],
           logged = [''No ECS services found in cluster: cluster-x'']\<rparr>)"
    using
      drainer_fails_only_on_listing
        [of denied_world start "()"
            "''cluster-x''" "ErrorString ''AccessDenied''"]
      drainer_fails_only_on_listing
        [of busy_world start "()" "''cluster-x''" _
            "\<lparr>ServiceArns = [service_A, service_B], NextToken_services = Some ''more''\<rparr>"]
      drainer_fails_only_on_listing
        [of idle_world start "()" "''cluster-x''" _
            "\<lparr>ServiceArns = [], NextToken_services = Some ''more''\<rparr>"]
    by (simp add: world_defs start_def issue_def log_Printf_def fmt_Errorf_def)
  from stages h items run show ?thesis by simp
qed

text \<open>
  Claim C6. In both variants the Task Reaper lists the running tasks of the cluster and
  then issues one stop request per listed task, in list order, each with the reason
  \<open>Cleanup before destroy\<close>, and returns success whatever the stop requests answer.
  With an empty list it issues no stop request and logs that no running task was found.
  When the listing fails it returns a failure that wraps the listing's error, and no
  stop request is issued. For the whole run: in a world where the configuration loads,
  the three listings succeed and the child process succeeds, both variants of
  \<open>main\<close> return (exit status 0), whatever the stop requests answer.
\<close>

theorem reaper_stops_each_task_once:
  "(ecs_ListTasks w (calls s) cfg cl DesiredStatusRunning None = Inr out \<longrightarrow>
      fst (stopRemainingTasks_A w cfg cl s) = Inr None \<and>
      calls (snd (stopRemainingTasks_A w cfg cl s)) =
        calls s @ ListTasksInput cl DesiredStatusRunning None #
          map (\<lambda>t. StopTaskInput cl t ''Cleanup before destroy'') (TaskArns out) \<and>
      fst (stopRemainingTasks_B w cfg cl s) = Inr None \<and>
      calls (snd (stopRemainingTasks_B w cfg cl s)) =
        calls s @ ListTasksInput cl DesiredStatusRunning None #
          map (\<lambda>t. StopTaskInput cl t ''Cleanup before destroy'') (TaskArns out)) \<and>
   (ecs_ListTasks w (calls s) cfg cl DesiredStatusRunning None = Inr out \<and> TaskArns out = [] \<longrightarrow>
      stopRemainingTasks_A w cfg cl s =
        (Inr None,
         log_Printf (''No running tasks found in cluster: '' @ cl)
           (issue (ListTasksInput cl DesiredStatusRunning None) s)) \<and>
      stopRemainingTasks_B w cfg cl s =
        (Inr None,
         log_Printf (''No running tasks in cluster: '' @ cl)
           (issue (ListTasksInput cl DesiredStatusRunning None) s))) \<and>
   (ecs_ListTasks w (calls s) cfg cl DesiredStatusRunning None = Inl err \<longrightarrow>
      stopRemainingTasks_A w cfg cl s =
        (Inr (Some (fmt_Errorf ''ListTasks error: '' err)),
         issue (ListTasksInput cl DesiredStatusRunning None) s) \<and>
      stopRemainingTasks_B w cfg cl s =
        (Inr (Some (fmt_Errorf ''ListTasks error: '' err)),
         issue (ListTasksInput cl DesiredStatusRunning None) s)) \<and>
   (stackName \<noteq> [] \<and> cdkAppPath \<noteq> [] \<and>
    (\<forall>h opts. \<exists>c. config_LoadDefaultConfig w h opts = Inr c) \<and>
    (\<forall>h c stack tok. \<exists>page name.
        cfn_ListStackResources w h c stack tok = Inr page \<and>
        scan_B (StackResourceSummaries page) = Inr name) \<and>
    (\<forall>h c cluster tok. \<exists>page. ecs_ListServices w h c cluster tok = Inr page) \<and>
    (\<forall>h c cluster status tok. \<exists>page. ecs_ListTasks w h c cluster status tok = Inr page) \<and>
    (\<forall>h cmd. cmd_Run w h cmd = None) \<longrightarrow>
      fst (main_A w stackName profile region cdkAppDir cdkAppFile) = Returned \<and>
      fst (main_B w stackName profile cdkAppPath cdkAppRoot) = Returned)"
proof -
  have run:
    "fst (main_A w stackName profile region cdkAppDir cdkAppFile) = Returned \<and>
     fst (main_B w stackName profile cdkAppPath cdkAppRoot) = Returned"
    if "stackName \<noteq> []" "cdkAppPath \<noteq> []"
      "\<forall>h opts. \<exists>c. config_LoadDefaultConfig w h opts = Inr c"
      "\<forall>h c stack tok. \<exists>page name.
          cfn_ListStackResources w h c stack tok = Inr page \<and>
          scan_B (StackResourceSummaries page) = Inr name"
      "\<forall>h c cluster tok. \<exists>page. ecs_ListServices w h c cluster tok = Inr page"
      "\<forall>h c cluster status tok. \<exists>page. ecs_ListTasks w h c cluster status tok = Inr page"
      "\<forall>h cmd. cmd_Run w h cmd = None"
  proof
    from that(4) have "\<forall>h c stack tok. \<exists>page. cfn_ListStackResources w h c stack tok = Inr page"
      by blast
    with that show "fst (main_A w stackName profile region cdkAppDir cdkAppFile) = Returned"
      by (intro main_A_returns)
    from that show "fst (main_B w stackName profile cdkAppPath cdkAppRoot) = Returned"
      by (intro main_B_returns)
  qed
  have stages:
    "(ecs_ListTasks w (calls s) cfg cl DesiredStatusRunning None = Inr out \<longrightarrow>
        fst (stopRemainingTasks_A w cfg cl s) = Inr None \<and>
        calls (snd (stopRemainingTasks_A w cfg cl s)) =
          calls s @ ListTasksInput cl DesiredStatusRunning None #
            map (\<lambda>t. StopTaskInput cl t ''Cleanup before destroy'') (TaskArns out) \<and>
        fst (stopRemainingTasks_B w cfg cl s) = Inr None \<and>
        calls (snd (stopRemainingTasks_B w cfg cl s)) =
          calls s @ ListTasksInput cl DesiredStatusRunning None #
            map (\<lambda>t. StopTaskInput cl t ''Cleanup before destroy'') (TaskArns out)) \<and>
     (ecs_ListTasks w (calls s) cfg cl DesiredStatusRunning None = Inr out \<and> TaskArns out = [] \<longrightarrow>
        stopRemainingTasks_A w cfg cl s =
          (Inr None,
           log_Printf (''No running tasks found in cluster: '' @ cl)
             (issue (ListTasksInput cl DesiredStatusRunning None) s)) \<and>
        stopRemainingTasks_B w cfg cl s =
          (Inr None,
           log_Printf (''No running tasks in cluster: '' @ cl)
             (issue (ListTasksInput cl DesiredStatusRunning None) s))) \<and>
     (ecs_ListTasks w (calls s) cfg cl DesiredStatusRunning None = Inl err \<longrightarrow>
        stopRemainingTasks_A w cfg cl s =
          (Inr (Some (fmt_Errorf ''ListTasks error: '' err)),
           issue (ListTasksInput cl DesiredStatusRunning None) s) \<and>
        stopRemainingTasks_B w cfg cl s =
          (Inr (Some (fmt_Errorf ''ListTasks error: '' err)),
           issue (ListTasksInput cl DesiredStatusRunning None) s))"
    unfolding stopRemainingTasks_A_def stopRemainingTasks_B_def
    using stopRemainingTasks_ok [of w s cfg cl out] stopRemainingTasks_empty [of w s cfg cl out]
      stopRemainingTasks_fail [of w s cfg cl err]
    by blast
  from stages run show ?thesis by blast
qed

theorem reaper_stops_each_task_once_witness:
  "ecs_ListTasks busy_world (calls start) ()
     ''cluster-x'' DesiredStatusRunning None =
     Inr \<lparr>TaskArns = [task_1, task_2], NextToken_tasks = Some ''more''\<rparr> \<and>
   ecs_StopTask busy_world
     [ListTasksInput ''cluster-x'' DesiredStatusRunning None] () ''cluster-x'' task_1
     ''Cleanup before destroy'' = Some (ErrorString ''stop refused'') \<and>
   fst (stopRemainingTasks_A busy_world ()
          ''cluster-x'' start) = Inr None \<and>
   calls (snd (stopRemainingTasks_A busy_world ()
                 ''cluster-x'' start)) =
     [ListTasksInput ''cluster-x'' DesiredStatusRunning None,
      StopTaskInput ''cluster-x'' task_1 ''Cleanup before destroy'',
      StopTaskInput ''cluster-x'' task_2 ''Cleanup before destroy''] \<and>
   ecs_ListTasks idle_world (calls start) ()
     ''cluster-x'' DesiredStatusRunning None =
     Inr \<lparr>TaskArns = [], NextToken_tasks = Some ''more''\<rparr> \<and>
   TaskArns \<lparr>TaskArns = [], NextToken_tasks = Some ''more''\<rparr> = [] \<and>
   stopRemainingTasks_B idle_world () ''cluster-x'' start =
     (Inr None,
      \<lparr>calls = [ListTasksInput ''cluster-x'' DesiredStatusRunning None],
       logged = [''No running tasks in cluster: cluster-x'']\<rparr>) \<and>
   ecs_ListTasks denied_world (calls start) ()
     ''cluster-x'' DesiredStatusRunning None = Inl (ErrorString ''AccessDenied'') \<and>
   stopRemainingTasks_A denied_world ()
     ''cluster-x'' start =
     (Inr (Some (WrapError ''ListTasks error: '' (ErrorString ''AccessDenied''))),
      \<lparr>calls = [ListTasksInput ''cluster-x'' DesiredStatusRunning None], logged = []\<rparr>) \<and>
   ''stack'' \<noteq> [] \<and> ''/app/bin/app.ts'' \<noteq> [] \<and>
   (\<forall>h opts. \<exists>c. config_LoadDefaultConfig busy_world h opts = Inr c) \<and>
   (\<forall>h c stack tok. \<exists>page name.
       cfn_ListStackResources busy_world h c stack tok = Inr page \<and>
       scan_B (StackResourceSummaries page) = Inr name) \<and>
   (\<forall>h c cluster tok. \<exists>page. ecs_ListServices busy_world h c cluster tok = Inr page) \<and>
   (\<forall>h c cluster status tok. \<exists>page. ecs_ListTasks busy_world h c cluster status tok = Inr page) \<and>
   (\<forall>h cmd. cmd_Run busy_world h cmd = None) \<and>
   (\<forall>h. ecs_UpdateService busy_world h () ''cluster-x'' ''B'' 0 = Some (ErrorString ''update refused'')) \<and>
   (\<forall>h. ecs_StopTask busy_world h () ''cluster-x'' task_1 ''Cleanup before destroy'' =
          Some (ErrorString ''stop refused'')) \<and>
   fst (main_A busy_world ''stack'' ''prod'' ''us-east-1'' ''/app'' ''bin/app.ts'') = Returned \<and>
   fst (main_B busy_world ''stack'' ''prod'' ''/app/bin/app.ts'' ''/app'') = Returned"
proof -
  let ?w = busy_world
  have h: "''stack'' \<noteq> [] \<and> ''/app/bin/app.ts'' \<noteq> [] \<and>
    (\<forall>h opts. \<exists>c. config_LoadDefaultConfig ?w h opts = Inr c) \<and>
    (\<forall>h c stack tok. \<exists>page name.
        cfn_ListStackResources ?w h c stack tok = Inr page \<and>
        scan_B (StackResourceSummaries page) = Inr name) \<and>
    (\<forall>h c cluster tok. \<exists>page. ecs_ListServices ?w h c cluster tok = Inr page) \<and>
    (\<forall>h c cluster status tok. \<exists>page. ecs_ListTasks ?w h c cluster status tok = Inr page) \<and>
    (\<forall>h cmd. cmd_Run ?w h cmd = None)"
    by (simp add: world_defs bucket_resource_def cluster_resource_def is_cluster_def)
  have items:
    "(\<forall>h. ecs_UpdateService ?w h () ''cluster-x'' ''B'' 0 = Some (ErrorString ''update refused'')) \<and>
     (\<forall>h. ecs_StopTask ?w h () ''cluster-x'' task_1 ''Cleanup before destroy'' =
            Some (ErrorString ''stop refused''))"
    by (simp add: world_defs)
  note run = reaper_stops_each_task_once
      [where w = ?w and stackName = "''stack''" and profile = "''prod''" and region = "''us-east-1''"
         and cdkAppDir = "''/app''" and cdkAppFile = "''bin/app.ts''"
         and cdkAppPath = "''/app/bin/app.ts''" and cdkAppRoot = "''/app''",
       THEN conjunct2, THEN conjunct2, THEN conjunct2, THEN mp, OF h]
  have stages: "ecs_ListTasks busy_world (calls start) ()
         ''cluster-x'' DesiredStatusRunning None =
         Inr \<lparr>TaskArns = [task_1, task_2], NextToken_tasks = Some ''more''\<rparr> \<and>
       ecs_StopTask busy_world
         [ListTasksInput ''cluster-x'' DesiredStatusRunning None] () ''cluster-x'' task_1
         ''Cleanup before destroy'' = Some (ErrorString ''stop refused'') \<and>
       fst (stopRemainingTasks_A busy_world ()
              ''cluster-x'' start) = Inr None \<and>
       calls (snd (stopRemainingTasks_A busy_world ()
                     ''cluster-x'' start)) =
         [ListTasksInput ''cluster-x'' DesiredStatusRunning None,
          StopTaskInput ''cluster-x'' task_1 ''Cleanup before destroy'',
          StopTaskInput ''cluster-x'' task_2 ''Cleanup before destroy''] \<and>
       ecs_ListTasks idle_world (calls start) ()
         ''cluster-x'' DesiredStatusRunning None =
         Inr \<lparr>TaskArns = [], NextToken_tasks = Some ''more''\<rparr> \<and>
       TaskArns \<lparr>TaskArns = [], NextToken_tasks = Some ''more''\<rparr> = [] \<and>
       stopRemainingTasks_B idle_world () ''cluster-x'' start =
         (Inr None,
          \<lparr>calls = [ListTasksInput ''cluster-x'' DesiredStatusRunning None],
           logged = [''No running tasks in cluster: cluster-x'']\<rparr>) \<and>
       ecs_ListTasks denied_world (calls start) ()
         ''cluster-x'' DesiredStatusRunning None = Inl (ErrorString ''AccessDenied'') \<and>
       stopRemainingTasks_A denied_world ()
         ''cluster-x'' start =
         (Inr (Some (WrapError ''ListTasks error: '' (ErrorString ''AccessDenied''))),
          \<lparr>calls = [ListTasksInput ''cluster-x'' DesiredStatusRunning None], logged = []\<rparr>)"
    using
      reaper_stops_each_task_once
        [of busy_world start "()" "''cluster-x''"
            "\<lparr>TaskArns = [task_1, task_2], NextToken_tasks = Some ''more''\<rparr>"]
      reaper_stops_each_task_once
        [of idle_world start "()" "''cluster-x''"
            "\<lparr>TaskArns = [], NextToken_tasks = Some ''more''\<rparr>"]
      reaper_stops_each_task_once
        [of denied_world start "()"
            "''cluster-x''" _ "ErrorString ''AccessDenied''"]
    by (simp add: world_defs start_def issue_def log_Printf_def fmt_Errorf_def)
  from stages h items run show ?thesis by simp
qed

text \<open>
  Claim C7. For every input string, short-name extraction returns the part of the string
  after its last \<open>/\<close> (the whole string when it has none): the longest suffix free
  of \<open>/\<close>. The ARN \<open>arn:aws:ecs:region:acct:service/cluster-x/my-service\<close> gives
  \<open>my-service\<close>, and an input without \<open>/\<close> comes back unchanged.
\<close>

theorem arnToName_suffix:
  "arnToName arn = Inr (rev (takeWhile (\<lambda>c. c \<noteq> CHR ''/'') (rev arn))) \<and>
   (CHR ''/'' \<notin> set name \<longrightarrow> arnToName (p @ ''/'' @ name) = Inr name) \<and>
   (CHR ''/'' \<notin> set arn \<longrightarrow> arnToName arn = Inr arn) \<and>
   arnToName ''arn:aws:ecs:region:acct:service/cluster-x/my-service'' = Inr ''my-service''"
proof -
  have a: "arnToName arn = Inr (rev (takeWhile (\<lambda>c. c \<noteq> CHR ''/'') (rev arn)))"
    by (simp only: arnToName_last last_Split_takeWhile)
  have b: "arnToName (p @ ''/'' @ name) = Inr name" if "CHR ''/'' \<notin> set name"
    using that last_Split_append [of p "CHR ''/''" name]
    by (simp add: arnToName_last last_Split_no_sep)
  have c: "arnToName arn = Inr arn" if "CHR ''/'' \<notin> set arn"
    using that by (simp add: arnToName_last last_Split_no_sep)
  have d: "arnToName ''arn:aws:ecs:region:acct:service/cluster-x/my-service'' = Inr ''my-service''"
    by (simp add: arnToName_last)
  from a b c d show ?thesis by blast
qed

theorem arnToName_suffix_witness:
  "CHR ''/'' \<notin> set ''my-service'' \<and>
   arnToName (''arn:aws:ecs:region:acct:service/cluster-x'' @ ''/'' @ ''my-service'') = Inr ''my-service'' \<and>
   CHR ''/'' \<notin> set ''my-service'' \<and>
   arnToName ''my-service'' = Inr ''my-service''"
  using arnToName_suffix [of "''my-service''" "''my-service''" "''arn:aws:ecs:region:acct:service/cluster-x''"]
  by simp

text \<open>
  Claim C8. With an empty \<open>--stack\<close> flag (its default) both variants log one error
  line and end with \<open>os.Exit(1)\<close>, and no call of any kind has been made: no
  configuration loaded, no request to the control plane, no child process.
\<close>

theorem missing_stack_flag_is_fatal:
  "main_A w [] profile region cdkAppDir cdkAppFile =
     (os_Exit 1, \<lparr>calls = [], logged = [''Error: --stack '' @ please_specify]\<rparr>) \<and>
   main_B w [] profile cdkAppPath cdkAppRoot =
     (os_Exit 1, \<lparr>calls = [], logged = [''Error: --stack '' @ please_specify]\<rparr>) \<and>
   exit_status (fst (main_A w [] profile region cdkAppDir cdkAppFile)) = 1 \<and>
   exit_status (fst (main_B w [] profile cdkAppPath cdkAppRoot)) = 1"
  by (simp add: main_A_def main_B_def log_Fatal_def log_Printf_def)

text \<open>
  Claim C9. Each of the three listings is requested once, with no continuation token,
  and the token of its response is never read: the Stack Inspector, the Service Drainer,
  the Task Reaper and the whole run behave the same in a world that differs in the
  tokens of its listing responses only. So only the first page is inspected: the update
  requests are those of the services on the first page, the stop requests those of the
  tasks on the first page.
\<close>

theorem listings_stop_at_first_page:
  "filter is_listing (calls (snd (getEcsClusterNameFromStack_A w cfg stack s))) =
     filter is_listing (calls s) @ [ListStackResourcesInput stack None] \<and>
   filter is_listing (calls (snd (getEcsClusterNameFromStack_B w cfg stack s))) =
     filter is_listing (calls s) @ [ListStackResourcesInput stack None] \<and>
   filter is_listing (calls (snd (deleteEcsServices w cfg cl s))) =
     filter is_listing (calls s) @ [ListServicesInput cl None] \<and>
   filter is_listing (calls (snd (stopRemainingTasks_A w cfg cl s))) =
     filter is_listing (calls s) @ [ListTasksInput cl DesiredStatusRunning None] \<and>
   filter is_listing (calls (snd (stopRemainingTasks_B w cfg cl s))) =
     filter is_listing (calls s) @ [ListTasksInput cl DesiredStatusRunning None] \<and>
   getEcsClusterNameFromStack_A (with_NextToken tok w) cfg stack s =
     getEcsClusterNameFromStack_A w cfg stack s \<and>
   getEcsClusterNameFromStack_B (with_NextToken tok w) cfg stack s =
     getEcsClusterNameFromStack_B w cfg stack s \<and>
   deleteEcsServices (with_NextToken tok w) cfg cl s = deleteEcsServices w cfg cl s \<and>
   stopRemainingTasks_A (with_NextToken tok w) cfg cl s = stopRemainingTasks_A w cfg cl s \<and>
   stopRemainingTasks_B (with_NextToken tok w) cfg cl s = stopRemainingTasks_B w cfg cl s \<and>
   main_A (with_NextToken tok w) stackName profile region cdkAppDir cdkAppFile =
     main_A w stackName profile region cdkAppDir cdkAppFile \<and>
   main_B (with_NextToken tok w) stackName profile cdkAppPath cdkAppRoot =
     main_B w stackName profile cdkAppPath cdkAppRoot \<and>
   (ecs_ListServices w (calls s) cfg cl None = Inr page \<longrightarrow>
      (\<exists>names. map arnToName (ServiceArns page) = map Inr names \<and>
         filter is_UpdateService (calls (snd (deleteEcsServices w cfg cl s))) =
           filter is_UpdateService (calls s) @ map (\<lambda>n. UpdateServiceInput cl n 0) names)) \<and>
   (ecs_ListTasks w (calls s) cfg cl DesiredStatusRunning None = Inr page' \<longrightarrow>
      calls (snd (stopRemainingTasks_A w cfg cl s)) =
        calls s @ ListTasksInput cl DesiredStatusRunning None #
          map (\<lambda>t. StopTaskInput cl t ''Cleanup before destroy'') (TaskArns page') \<and>
      calls (snd (stopRemainingTasks_B w cfg cl s)) =
        calls s @ ListTasksInput cl DesiredStatusRunning None #
          map (\<lambda>t. StopTaskInput cl t ''Cleanup before destroy'') (TaskArns page'))"
proof -
  have l1: "filter is_listing (calls (snd (getEcsClusterNameFromStack_A w cfg stack s))) =
            filter is_listing (calls s) @ [ListStackResourcesInput stack None]"
    by (simp add: getEcsClusterNameFromStack_A_calls)
  have l2: "filter is_listing (calls (snd (getEcsClusterNameFromStack_B w cfg stack s))) =
            filter is_listing (calls s) @ [ListStackResourcesInput stack None]"
    by (simp add: getEcsClusterNameFromStack_B_calls)
  have drained:
    "\<exists>names. map arnToName (ServiceArns page) = map Inr names \<and>
       filter is_UpdateService (calls (snd (deleteEcsServices w cfg cl s))) =
         filter is_UpdateService (calls s) @ map (\<lambda>n. UpdateServiceInput cl n 0) names"
    if "ecs_ListServices w (calls s) cfg cl None = Inr page"
  proof (intro exI conjI)
    show "map arnToName (ServiceArns page) =
          map Inr (map (\<lambda>arn. last (strings_Split arn CHR ''/'')) (ServiceArns page))"
      by (simp add: arnToName_last)
    show "filter is_UpdateService (calls (snd (deleteEcsServices w cfg cl s))) =
          filter is_UpdateService (calls s) @
            map (\<lambda>n. UpdateServiceInput cl n 0)
              (map (\<lambda>arn. last (strings_Split arn CHR ''/'')) (ServiceArns page))"
      by (simp add: deleteEcsServices_updates [OF that] comp_def)
  qed
  have stopped:
    "calls (snd (stopRemainingTasks_A w cfg cl s)) =
       calls s @ ListTasksInput cl DesiredStatusRunning None #
         map (\<lambda>t. StopTaskInput cl t ''Cleanup before destroy'') (TaskArns page') \<and>
     calls (snd (stopRemainingTasks_B w cfg cl s)) =
       calls s @ ListTasksInput cl DesiredStatusRunning None #
         map (\<lambda>t. StopTaskInput cl t ''Cleanup before destroy'') (TaskArns page')"
    if "ecs_ListTasks w (calls s) cfg cl DesiredStatusRunning None = Inr page'"
    unfolding stopRemainingTasks_A_def stopRemainingTasks_B_def
    using stopRemainingTasks_ok [OF that] by simp
  show ?thesis
    unfolding stopRemainingTasks_A_def stopRemainingTasks_B_def
    using l1 l2 drained stopped [unfolded stopRemainingTasks_A_def stopRemainingTasks_B_def]
    by (simp only: deleteEcsServices_listing stopRemainingTasks_listing
        getEcsClusterNameFromStack_A_token getEcsClusterNameFromStack_B_token
        deleteEcsServices_token stopRemainingTasks_token main_A_token main_B_token) blast
qed

theorem listings_stop_at_first_page_witness:
  "ecs_ListServices busy_world
     (calls start) () ''cluster-x'' None =
     Inr \<lparr>ServiceArns = [service_A, service_B], NextToken_services = Some ''more''\<rparr> \<and>
   filter is_UpdateService
     (calls (snd (deleteEcsServices
                    busy_world ()
                    ''cluster-x'' start))) =
     [UpdateServiceInput ''cluster-x'' ''A'' 0, UpdateServiceInput ''cluster-x'' ''B'' 0] \<and>
   ecs_ListTasks busy_world
     (calls start) () ''cluster-x'' DesiredStatusRunning None =
     Inr \<lparr>TaskArns = [task_1, task_2], NextToken_tasks = Some ''more''\<rparr> \<and>
   calls (snd (stopRemainingTasks_A
                 busy_world ()
                 ''cluster-x'' start)) =
     [ListTasksInput ''cluster-x'' DesiredStatusRunning None,
      StopTaskInput ''cluster-x'' task_1 ''Cleanup before destroy'',
      StopTaskInput ''cluster-x'' task_2 ''Cleanup before destroy'']"
proof -
  let ?w = busy_world
  have h1: "ecs_ListServices ?w (calls start) () ''cluster-x'' None =
            Inr \<lparr>ServiceArns = [service_A, service_B], NextToken_services = Some ''more''\<rparr>"
    by (simp add: world_defs)
  have h2: "ecs_ListTasks ?w (calls start) () ''cluster-x'' DesiredStatusRunning None =
            Inr \<lparr>TaskArns = [task_1, task_2], NextToken_tasks = Some ''more''\<rparr>"
    by (simp add: world_defs)
  have names: "arnToName service_A = Inr ''A''" "arnToName service_B = Inr ''B''"
    by (simp_all add: arnToName_last service_A_def service_B_def)
  note T = listings_stop_at_first_page
        [where w = ?w and s = start and cfg = "()" and cl = "''cluster-x''"
           and page = "\<lparr>ServiceArns = [service_A, service_B], NextToken_services = Some ''more''\<rparr>"
           and page' = "\<lparr>TaskArns = [task_1, task_2], NextToken_tasks = Some ''more''\<rparr>"
           and stack = "''stack''" and tok = None and stackName = "''stack''" and profile = "[]"
           and region = "[]" and cdkAppDir = "[]" and cdkAppFile = "[]" and cdkAppPath = "[]"
           and cdkAppRoot = "[]"]
  note drained = T [THEN conjunct2, THEN conjunct2, THEN conjunct2, THEN conjunct2, THEN conjunct2, THEN conjunct2, THEN conjunct2, THEN conjunct2, THEN conjunct2, THEN conjunct2, THEN conjunct2, THEN conjunct2, THEN conjunct1, THEN mp, OF h1]
  note stopped = T [THEN conjunct2, THEN conjunct2, THEN conjunct2, THEN conjunct2, THEN conjunct2, THEN conjunct2, THEN conjunct2, THEN conjunct2, THEN conjunct2, THEN conjunct2, THEN conjunct2, THEN conjunct2, THEN conjunct2, THEN mp, OF h2]
  from drained obtain ns
    where ns: "map arnToName
                 (ServiceArns \<lparr>ServiceArns = [service_A, service_B], NextToken_services = Some ''more''\<rparr>) =
               map Inr ns"
    and upd: "filter is_UpdateService (calls (snd (deleteEcsServices ?w () ''cluster-x'' start))) =
              filter is_UpdateService (calls start) @ map (\<lambda>n. UpdateServiceInput ''cluster-x'' n 0) ns"
    by blast
  from ns names have "ns = [''A'', ''B'']" by auto
  with upd have c1: "filter is_UpdateService (calls (snd (deleteEcsServices ?w () ''cluster-x'' start))) =
     [UpdateServiceInput ''cluster-x'' ''A'' 0, UpdateServiceInput ''cluster-x'' ''B'' 0]"
    by (simp add: start_def)
  from stopped have c2: "calls (snd (stopRemainingTasks_A ?w () ''cluster-x'' start)) =
     [ListTasksInput ''cluster-x'' DesiredStatusRunning None,
      StopTaskInput ''cluster-x'' task_1 ''Cleanup before destroy'',
      StopTaskInput ''cluster-x'' task_2 ''Cleanup before destroy'']"
    by (simp add: start_def)
  from h1 h2 c1 c2 show ?thesis by simp
qed

text \<open>
  Claim C10. Short-name extraction never fails: splitting on \<open>/\<close> gives at least one
  piece, so the index \<open>len(parts)-1\<close> is in range and the function returns for every
  input. The empty string gives the empty string, and so does every input that ends in
  \<open>/\<close>.
\<close>

theorem arnToName_total:
  "1 \<le> length (strings_Split arn CHR ''/'') \<and>
   (\<exists>name. arnToName arn = Inr name) \<and>
   arnToName [] = Inr [] \<and>
   arnToName (p @ ''/'') = Inr []"
proof -
  have "strings_Split arn CHR ''/'' \<noteq> []" by (rule strings_Split_not_Nil)
  then have a: "1 \<le> length (strings_Split arn CHR ''/'')"
    by (cases "strings_Split arn CHR ''/''") auto
  have b: "arnToName (p @ ''/'') = Inr []"
    using last_Split_append [of p "CHR ''/''" "[]"] by (simp add: arnToName_last)
  show ?thesis using a b by (simp add: arnToName_last)
qed

end
